theory Spec2Isabelle
  imports Complex_Main "HOL-Library.Word"
begin

section \<open>Errors (src/errors.ts)\<close>

text \<open>
  \<^verbatim>\<open>SlipstreamError\<close> carries a code and a message. The static factories of the class
  are the definitions below; a thrown error or a rejected promise is the \<open>Inl\<close> branch of
  a sum.
\<close>

datatype error_code =
  CONFIG | CONNECTION | AUTH | PROTOCOL | TRANSACTION | TIMEOUT | ALL_PROTOCOLS_FAILED
  | RATE_LIMITED | NOT_CONNECTED | STREAM_CLOSED | INSUFFICIENT_TOKENS | INTERNAL

datatype SlipstreamError = SlipstreamError (code: error_code) (message: string)

fun string_of_nat :: "nat \<Rightarrow> string" where
  "string_of_nat n =
     (if n < 10 then [''0123456789'' ! n]
      else string_of_nat (n div 10) @ [''0123456789'' ! (n mod 10)])"

declare string_of_nat.simps [simp del]

definition err_config :: "string \<Rightarrow> SlipstreamError" where
  "err_config msg = SlipstreamError CONFIG msg"

definition err_connection :: "string \<Rightarrow> SlipstreamError" where
  "err_connection msg = SlipstreamError CONNECTION msg"

definition err_protocol :: "string \<Rightarrow> SlipstreamError" where
  "err_protocol msg = SlipstreamError PROTOCOL msg"

definition err_transaction :: "string \<Rightarrow> SlipstreamError" where
  "err_transaction msg = SlipstreamError TRANSACTION msg"

definition err_timeout :: "nat \<Rightarrow> SlipstreamError" where
  "err_timeout ms = SlipstreamError TIMEOUT (''Operation timed out after '' @ string_of_nat ms @ ''ms'')"

definition err_notConnected :: SlipstreamError where
  "err_notConnected = SlipstreamError NOT_CONNECTED ''Client is not connected''"

section \<open>Shared result types (src/types.ts)\<close>

datatype TransactionStatus =
  Pending | Processing | Sent | Confirmed | Failed | Duplicate | RateLimited | InsufficientTokens

record TransactionResult =
  tr_requestId :: string
  tr_transactionId :: string
  tr_signature :: "string option"
  tr_status :: TransactionStatus
  tr_timestamp :: int

record PerformanceMetrics =
  transactionsSubmitted :: nat
  transactionsConfirmed :: nat
  averageLatencyMs :: real
  successRate :: real

section \<open>SlipstreamClient metrics (src/client.ts)\<close>

text \<open>
  The four private counters of \<^verbatim>\<open>SlipstreamClient\<close>. They start at 0 and are written only
  by \<^verbatim>\<open>submitTransactionWithOptions\<close>.
\<close>

record client_counters =
  txSubmitted :: nat
  txConfirmed :: nat
  totalLatencyMs :: int
  lastLatencyMs :: int

definition client_init :: client_counters where
  "client_init = \<lparr>txSubmitted = 0, txConfirmed = 0, totalLatencyMs = 0, lastLatencyMs = 0\<rparr>"

text \<open>
  One completed call of \<^verbatim>\<open>submitTransactionWithOptions\<close>. The arguments \<open>start\<close> and
  \<open>finish\<close> are the two readings of \<^verbatim>\<open>Date.now()\<close>; \<open>outcome\<close> is what the transport
  chosen by \<^verbatim>\<open>this.ws.isConnected()\<close> (WebSocket, else HTTP) answered: \<open>Inl\<close> when the
  awaited call threw. The code after the \<^verbatim>\<open>await\<close> runs in one task continuation, so
  concurrent calls update the counters one completed call after the other.
\<close>

definition client_submitTransactionWithOptions ::
  "int \<Rightarrow> int \<Rightarrow> SlipstreamError + TransactionResult \<Rightarrow> client_counters
     \<Rightarrow> client_counters \<times> (SlipstreamError + TransactionResult)" where
  "client_submitTransactionWithOptions start finish outcome c =
     (case outcome of
        Inl err \<Rightarrow> (c\<lparr>txSubmitted := txSubmitted c + 1\<rparr>, Inl err)
      | Inr result \<Rightarrow>
          (let elapsed = finish - start;
               c1 = c\<lparr>lastLatencyMs := elapsed\<rparr>;
               c2 = c1\<lparr>txSubmitted := txSubmitted c1 + 1\<rparr>;
               c3 = c2\<lparr>totalLatencyMs := totalLatencyMs c2 + elapsed\<rparr>;
               c4 = (if tr_status result = Confirmed \<or> tr_status result = Sent
                     then c3\<lparr>txConfirmed := txConfirmed c3 + 1\<rparr> else c3)
           in (c4, Inr result)))"

text \<open>The client states reachable from a fresh client: any finite sequence of completed calls.\<close>

fun client_run ::
  "(int \<times> int \<times> (SlipstreamError + TransactionResult)) list \<Rightarrow> client_counters \<Rightarrow> client_counters" where
  "client_run [] c = c"
| "client_run ((start, finish, outcome) # calls) c =
     client_run calls (fst (client_submitTransactionWithOptions start finish outcome c))"

definition metrics :: "client_counters \<Rightarrow> PerformanceMetrics" where
  "metrics c =
     \<lparr>transactionsSubmitted = txSubmitted c,
      transactionsConfirmed = txConfirmed c,
      averageLatencyMs =
        (if txSubmitted c > 0 then real_of_int (totalLatencyMs c) / real (txSubmitted c) else 0),
      successRate =
        (if txSubmitted c > 0 then real (txConfirmed c) / real (txSubmitted c) else 0)\<rparr>"

section \<open>Binary protocol codec (transport/binary.ts)\<close>

text \<open>
  A Node \<^verbatim>\<open>Buffer\<close> is a list of bytes. Three behaviours of the platform are written out,
  since the decoders rely on them:
  \<^item> \<^verbatim>\<open>buf[i]\<close> out of range is \<^verbatim>\<open>undefined\<close> (here \<open>None\<close>), and adding
    \<^verbatim>\<open>undefined\<close> to an offset gives \<^verbatim>\<open>NaN\<close> (an offset is a \<open>nat option\<close>,
    \<open>None\<close> for \<^verbatim>\<open>NaN\<close>);
  \<^item> \<^verbatim>\<open>buf.subarray(start, end)\<close> never throws: \<^verbatim>\<open>NaN\<close> counts as 0 and both ends
    are clamped to the length; a comparison with \<^verbatim>\<open>undefined\<close> or \<^verbatim>\<open>NaN\<close> is false;
  \<^item> \<^verbatim>\<open>readUInt16BE\<close>, \<^verbatim>\<open>readUInt32BE\<close> and \<^verbatim>\<open>readBigUInt64BE\<close> throw a
    \<^verbatim>\<open>RangeError\<close> unless all of their bytes lie inside the buffer.
  A decoder returns \<open>Inl\<close> when it throws, \<open>Inr None\<close> for \<^verbatim>\<open>null\<close> and
  \<open>Inr (Some frame)\<close> for a parsed frame.
\<close>

type_synonym byte = "8 word"
type_synonym buffer = "byte list"
type_synonym js_index = "nat option"

datatype js_exception = RangeError

text \<open>
  \<^verbatim>\<open>toString('utf-8')\<close> is kept as the byte sequence itself, one character per byte; Node
  decodes UTF-8 and replaces invalid sequences by U+FFFD. No property below reads a decoded
  string.
\<close>

definition utf8_toString :: "buffer \<Rightarrow> string" where
  "utf8_toString bs = map (\<lambda>b. char_of (unat b)) bs"

definition utf8_bytes :: "string \<Rightarrow> buffer" where
  "utf8_bytes s = map (\<lambda>c. of_nat (of_char c)) s"

definition buf_index :: "buffer \<Rightarrow> js_index \<Rightarrow> nat option" where
  "buf_index buf i =
     (case i of None \<Rightarrow> None
      | Some k \<Rightarrow> if k < length buf then Some (unat (buf ! k)) else None)"

definition js_add :: "js_index \<Rightarrow> nat option \<Rightarrow> js_index" where
  "js_add a b = (case a of None \<Rightarrow> None
                 | Some x \<Rightarrow> (case b of None \<Rightarrow> None | Some y \<Rightarrow> Some (x + y)))"

definition js_less :: "js_index \<Rightarrow> js_index \<Rightarrow> bool" where
  "js_less a b = (case a of None \<Rightarrow> False
                  | Some x \<Rightarrow> (case b of None \<Rightarrow> False | Some y \<Rightarrow> x < y))"

definition js_less_eq :: "js_index \<Rightarrow> js_index \<Rightarrow> bool" where
  "js_less_eq a b = (case a of None \<Rightarrow> False
                     | Some x \<Rightarrow> (case b of None \<Rightarrow> False | Some y \<Rightarrow> x \<le> y))"

definition to_integer :: "js_index \<Rightarrow> nat" where
  "to_integer i = (case i of None \<Rightarrow> 0 | Some k \<Rightarrow> k)"

definition subarray :: "buffer \<Rightarrow> js_index \<Rightarrow> js_index \<Rightarrow> buffer" where
  "subarray buf start fin =
     (let s = min (to_integer start) (length buf);
          e = min (to_integer fin) (length buf)
      in take (e - s) (drop s buf))"

definition be_value :: "buffer \<Rightarrow> nat" where
  "be_value bs = foldl (\<lambda>acc b. acc * 256 + unat b) 0 bs"

definition read_uint_be :: "nat \<Rightarrow> buffer \<Rightarrow> js_index \<Rightarrow> js_exception + nat" where
  "read_uint_be w buf off =
     (case off of None \<Rightarrow> Inl RangeError
      | Some k \<Rightarrow> if k + w \<le> length buf then Inr (be_value (take w (drop k buf)))
                  else Inl RangeError)"

definition readUInt16BE :: "buffer \<Rightarrow> js_index \<Rightarrow> js_exception + nat" where
  "readUInt16BE = read_uint_be 2"

definition readUInt32BE :: "buffer \<Rightarrow> js_index \<Rightarrow> js_exception + nat" where
  "readUInt32BE = read_uint_be 4"

text \<open>
  \<^verbatim>\<open>Number(buf.readBigUInt64BE(offset))\<close>: the 64-bit value is kept exactly (the conversion
  to a double rounds above \<open>2^53\<close>, which changes no control flow).
\<close>

definition readBigUInt64BE :: "buffer \<Rightarrow> js_index \<Rightarrow> js_exception + nat" where
  "readBigUInt64BE = read_uint_be 8"

definition STREAM_TYPE_TransactionSubmit :: nat where "STREAM_TYPE_TransactionSubmit = 1"
definition STREAM_TYPE_LeaderHints :: nat where "STREAM_TYPE_LeaderHints = 2"
definition STREAM_TYPE_TipInstructions :: nat where "STREAM_TYPE_TipInstructions = 3"
definition STREAM_TYPE_PriorityFees :: nat where "STREAM_TYPE_PriorityFees = 4"
definition STREAM_TYPE_Metrics :: nat where "STREAM_TYPE_Metrics = 5"
definition STREAM_TYPE_LatestBlockhash :: nat where "STREAM_TYPE_LatestBlockhash = 6"
definition STREAM_TYPE_LatestSlot :: nat where "STREAM_TYPE_LatestSlot = 7"
definition STREAM_TYPE_Ping :: nat where "STREAM_TYPE_Ping = 8"

definition SDK_VERSION :: string where
  "SDK_VERSION = ''ts-sdk-v0.1''"

text \<open>
  \<^verbatim>\<open>buildAuthFrame(apiKey, tier?)\<close>. The prefix is 8 zero bytes overwritten by the first
  (at most 8) bytes of the key. \<^verbatim>\<open>if (tier)\<close> is true for a defined, non-empty string.
\<close>

definition buildAuthFrame :: "string \<Rightarrow> string option \<Rightarrow> buffer" where
  "buildAuthFrame apiKey tier =
     (let keyBytes = utf8_bytes apiKey;
          n = min (length keyBytes) 8;
          prefix = take n keyBytes @ replicate (8 - n) 0;
          version = utf8_bytes SDK_VERSION;
          nullByte = [0]
      in case tier of
           Some t \<Rightarrow>
             if t \<noteq> [] then prefix @ version @ nullByte @ utf8_bytes t @ nullByte
             else prefix @ version
         | None \<Rightarrow> prefix @ version)"

record LeaderHintMetadata =
  tpuRttMs :: real
  regionScore :: real

record LeaderHint =
  lh_timestamp :: int
  lh_slot :: int
  expiresAtSlot :: int
  preferredRegion :: string
  backupRegions :: "string list"
  lh_confidence :: real
  leaderPubkey :: "string option"
  lh_metadata :: LeaderHintMetadata

record TipInstruction =
  ti_timestamp :: int
  sender :: string
  senderName :: string
  tipWalletAddress :: string
  tipAmountSol :: real
  tipTier :: string
  expectedLatencyMs :: int
  ti_confidence :: real
  validUntilSlot :: int
  alternativeSenders :: "(string \<times> real \<times> real) list"

record PriorityFee =
  pf_timestamp :: int
  speed :: string
  computeUnitPrice :: int
  computeUnitLimit :: int
  estimatedCostSol :: real
  landingProbability :: real
  networkCongestion :: string
  recentSuccessRate :: real

record LatestBlockhash =
  blockhash :: string
  lastValidBlockHeight :: int
  lb_timestamp :: int

record LatestSlot =
  ls_slot :: int
  ls_timestamp :: int

definition parseLeaderHint :: "buffer \<Rightarrow> js_exception + LeaderHint option" where
  "parseLeaderHint buf =
     (if length buf < 1 then Inr None
      else
        let offset0 = (if buf_index buf (Some 0) = Some STREAM_TYPE_LeaderHints
                       then Some 1 else Some (0::nat))
        in if js_less (Some (length buf)) (js_add offset0 (Some 1)) then Inr None
        else
          let regionLen = buf_index buf offset0;
              offset1 = js_add offset0 (Some 1);
              region = utf8_toString (subarray buf offset1 (js_add offset1 regionLen));
              offset2 = js_add offset1 regionLen
          in case readUInt16BE buf offset2 of
               Inl e \<Rightarrow> Inl e
             | Inr confidenceRaw \<Rightarrow>
          let offset3 = js_add offset2 (Some 2)
          in case readUInt32BE buf offset3 of
               Inl e \<Rightarrow> Inl e
             | Inr slotsRemaining \<Rightarrow>
          let offset4 = js_add offset3 (Some 4);
              pk =
                (if js_less offset4 (Some (length buf)) then
                   let pubkeyLen = buf_index buf offset4;
                       offset5 = js_add offset4 (Some 1)
                   in if js_less (Some 0) pubkeyLen
                         \<and> js_less_eq (js_add offset5 pubkeyLen) (Some (length buf))
                      then (utf8_toString (subarray buf offset5 (js_add offset5 pubkeyLen)),
                            js_add offset5 pubkeyLen)
                      else (''unknown'', offset5)
                 else (''unknown'', offset4))
          in case readBigUInt64BE buf (snd pk) of
               Inl e \<Rightarrow> Inl e
             | Inr timestamp \<Rightarrow>
          let confidence = real confidenceRaw / 100
          in Inr (Some
               \<lparr>lh_timestamp = int timestamp,
                lh_slot = 0,
                expiresAtSlot = int slotsRemaining,
                preferredRegion = region,
                backupRegions = [],
                lh_confidence = confidence,
                leaderPubkey = Some (fst pk),
                lh_metadata = \<lparr>tpuRttMs = 0, regionScore = confidence\<rparr>\<rparr>))"

definition parseTipInstruction :: "buffer \<Rightarrow> js_exception + TipInstruction option" where
  "parseTipInstruction buf =
     (if length buf < 1 then Inr None
      else
        let offset0 = (if buf_index buf (Some 0) = Some STREAM_TYPE_TipInstructions
                       then Some 1 else Some (0::nat));
            senderLen = buf_index buf offset0;
            offset1 = js_add offset0 (Some 1);
            sender_s = utf8_toString (subarray buf offset1 (js_add offset1 senderLen));
            offset2 = js_add offset1 senderLen;
            walletLen = buf_index buf offset2;
            offset3 = js_add offset2 (Some 1);
            wallet = utf8_toString (subarray buf offset3 (js_add offset3 walletLen));
            offset4 = js_add offset3 walletLen
        in case readBigUInt64BE buf offset4 of
             Inl e \<Rightarrow> Inl e
           | Inr amountLamports \<Rightarrow>
        let offset5 = js_add offset4 (Some 8);
            tierLen = buf_index buf offset5;
            offset6 = js_add offset5 (Some 1);
            tier = utf8_toString (subarray buf offset6 (js_add offset6 tierLen));
            offset7 = js_add offset6 tierLen
        in case readUInt32BE buf offset7 of
             Inl e \<Rightarrow> Inl e
           | Inr latency \<Rightarrow>
        let offset8 = js_add offset7 (Some 4)
        in case readBigUInt64BE buf offset8 of
             Inl e \<Rightarrow> Inl e
           | Inr timestamp \<Rightarrow>
        Inr (Some
          \<lparr>ti_timestamp = int timestamp,
           sender = sender_s,
           senderName = sender_s,
           tipWalletAddress = wallet,
           tipAmountSol = real amountLamports / 1000000000,
           tipTier = tier,
           expectedLatencyMs = int latency,
           ti_confidence = 100,
           validUntilSlot = 0,
           alternativeSenders = []\<rparr>))"

text \<open>
  In \<^verbatim>\<open>parsePriorityFee\<close> the byte \<^verbatim>\<open>percentile\<close> is read with \<^verbatim>\<open>buf[offset]\<close>; when
  it is \<^verbatim>\<open>undefined\<close> the 4-byte read after it throws, so the \<open>None\<close> branches below
  (\<^verbatim>\<open>undefined >= 75\<close> is false, \<^verbatim>\<open>undefined / 100\<close> is \<^verbatim>\<open>NaN\<close>, given as 0) are never
  returned.
\<close>

definition parsePriorityFee :: "buffer \<Rightarrow> js_exception + PriorityFee option" where
  "parsePriorityFee buf =
     (if length buf < 1 then Inr None
      else
        let offset0 = (if buf_index buf (Some 0) = Some STREAM_TYPE_PriorityFees
                       then Some 1 else Some (0::nat))
        in case readBigUInt64BE buf offset0 of
             Inl e \<Rightarrow> Inl e
           | Inr microLamports \<Rightarrow>
        let offset1 = js_add offset0 (Some 8);
            percentile = buf_index buf offset1;
            offset2 = js_add offset1 (Some 1)
        in case readUInt32BE buf offset2 of
             Inl e \<Rightarrow> Inl e
           | Inr sampleCount \<Rightarrow>
        let offset3 = js_add offset2 (Some 4)
        in case readBigUInt64BE buf offset3 of
             Inl e \<Rightarrow> Inl e
           | Inr timestamp \<Rightarrow>
        Inr (Some
          \<lparr>pf_timestamp = int timestamp,
           speed = (case percentile of
                      None \<Rightarrow> ''slow''
                    | Some p \<Rightarrow> if p \<ge> 75 then ''fast''
                                else if p \<ge> 50 then ''medium'' else ''slow''),
           computeUnitPrice = int microLamports,
           computeUnitLimit = 200000,
           estimatedCostSol = real (microLamports * 200000) / 1000000000000,
           landingProbability = (case percentile of None \<Rightarrow> 0 | Some p \<Rightarrow> real p / 100),
           networkCongestion = (if microLamports > 100000 then ''high''
                                else if microLamports > 10000 then ''medium'' else ''low''),
           recentSuccessRate = (if sampleCount > 0 then 95 / 100 else 0)\<rparr>))"

definition parseLatestBlockhash :: "buffer \<Rightarrow> js_exception + LatestBlockhash option" where
  "parseLatestBlockhash buf =
     (if length buf < 1 then Inr None
      else
        let offset0 = (if buf_index buf (Some 0) = Some STREAM_TYPE_LatestBlockhash
                       then Some 1 else Some (0::nat));
            hashLen = buf_index buf offset0;
            offset1 = js_add offset0 (Some 1);
            hash = utf8_toString (subarray buf offset1 (js_add offset1 hashLen));
            offset2 = js_add offset1 hashLen
        in case readBigUInt64BE buf offset2 of
             Inl e \<Rightarrow> Inl e
           | Inr height \<Rightarrow>
        let offset3 = js_add offset2 (Some 8)
        in case readBigUInt64BE buf offset3 of
             Inl e \<Rightarrow> Inl e
           | Inr timestamp \<Rightarrow>
        Inr (Some \<lparr>blockhash = hash, lastValidBlockHeight = int height,
                   lb_timestamp = int timestamp\<rparr>))"

definition parseLatestSlot :: "buffer \<Rightarrow> js_exception + LatestSlot option" where
  "parseLatestSlot buf =
     (if length buf < 1 then Inr None
      else
        let offset0 = (if buf_index buf (Some 0) = Some STREAM_TYPE_LatestSlot
                       then Some 1 else Some (0::nat))
        in case readBigUInt64BE buf offset0 of
             Inl e \<Rightarrow> Inl e
           | Inr slot_v \<Rightarrow>
        let offset1 = js_add offset0 (Some 8)
        in case readBigUInt64BE buf offset1 of
             Inl e \<Rightarrow> Inl e
           | Inr timestamp \<Rightarrow>
        Inr (Some \<lparr>ls_slot = int slot_v, ls_timestamp = int timestamp\<rparr>))"

text \<open>
  \<^verbatim>\<open>parsePongFrame\<close>, the decoder of the same file that checks the whole length before it
  reads: it cannot reach a throwing read.
\<close>

definition parsePongFrame :: "buffer \<Rightarrow> js_exception + (nat \<times> nat \<times> nat) option" where
  "parsePongFrame buf =
     (if length buf < 21 then Inr None
      else
        let offset0 = (if buf_index buf (Some 0) = Some STREAM_TYPE_Ping then 1 else (0::nat))
        in if length buf < offset0 + 20 then Inr None
        else case readUInt32BE buf (Some offset0) of
               Inl e \<Rightarrow> Inl e
             | Inr seq \<Rightarrow>
             (case readBigUInt64BE buf (Some (offset0 + 4)) of
                Inl e \<Rightarrow> Inl e
              | Inr clientSendTime \<Rightarrow>
                (case readBigUInt64BE buf (Some (offset0 + 12)) of
                   Inl e \<Rightarrow> Inl e
                 | Inr serverTime \<Rightarrow> Inr (Some (seq, clientSendTime, serverTime)))))"

text \<open>
  The auth request layout as the frame table of the specification gives it, for comparison
  with \<open>buildAuthFrame\<close>: key prefix, version string, a null byte, and the tier string with
  its own null byte when a tier is given.
\<close>

definition spec_auth_layout :: "string \<Rightarrow> string option \<Rightarrow> buffer" where
  "spec_auth_layout apiKey tier =
     (let keyBytes = utf8_bytes apiKey;
          n = min (length keyBytes) 8
      in take n keyBytes @ replicate (8 - n) 0 @ utf8_bytes SDK_VERSION @ [0] @
         (case tier of None \<Rightarrow> [] | Some t \<Rightarrow> utf8_bytes t @ [0]))"

section \<open>Multi-region router (src/multi-region.ts)\<close>

datatype FallbackStrategy = Sequential | Broadcast | Retry | NoFallback

record RoutingRecommendation =
  bestRegion :: string
  rr_leaderPubkey :: "string option"
  rr_slot :: int
  rr_confidence :: real
  expectedRttMs :: "real option"
  fallbackRegions :: "string list"
  fallbackStrategy :: FallbackStrategy
  validForMs :: int

record MultiRegionConfig =
  autoFollowLeader :: bool
  minSwitchConfidence :: real
  switchCooldownMs :: int
  broadcastHighPriority :: bool
  maxBroadcastRegions :: int

record SubmitOptions =
  broadcastMode :: "bool option"
  preferredSender :: "string option"
  maxRetries :: "nat option"
  timeoutMs :: "nat option"
  dedupId :: "string option"

datatype router_event = LeaderHintEvent LeaderHint | RoutingUpdateEvent RoutingRecommendation

text \<open>
  The fields of \<^verbatim>\<open>MultiRegionClient\<close>. The two \<^verbatim>\<open>Map\<close>s keep their keys in insertion
  order: \<open>clients\<close> lists the regions that have a client, \<open>workersByRegion\<close> pairs each
  region with the identifiers of its workers. \<open>emitted\<close> records the events emitted.
\<close>

record multi_region =
  baseConfig_region :: "string option"
  multiConfig :: MultiRegionConfig
  clients :: "string list"
  workersByRegion :: "(string \<times> string list) list"
  currentRouting :: "RoutingRecommendation option"
  lastSwitchTime :: int
  emitted :: "router_event list"

text \<open>
  What lies outside the router: whether \<^verbatim>\<open>SlipstreamClient.connect\<close> for a region fails
  (\<open>Some\<close> error) and what the region's client answers to a submission. Both may change
  from one attempt to the next, so they take the index of the attempt within one call.
\<close>

record region_env =
  connect_outcome :: "nat \<Rightarrow> string \<Rightarrow> SlipstreamError option"
  submit_outcome :: "nat \<Rightarrow> string \<Rightarrow> SlipstreamError + TransactionResult"

definition ensureRegionConnected ::
  "region_env \<Rightarrow> nat \<Rightarrow> string \<Rightarrow> multi_region \<Rightarrow> SlipstreamError + multi_region" where
  "ensureRegionConnected env k region st =
     (if region \<in> set (clients st) then Inr st
      else case map_of (workersByRegion st) region of
             None \<Rightarrow> Inl (err_config (''No workers in region: '' @ region))
           | Some workers \<Rightarrow>
               if length workers = 0
               then Inl (err_config (''No workers in region: '' @ region))
               else (case connect_outcome env k region of
                       Some e \<Rightarrow> Inl e
                     | None \<Rightarrow> Inr (st\<lparr>clients := clients st @ [region]\<rparr>)))"

definition submitToRegion ::
  "region_env \<Rightarrow> nat \<Rightarrow> string \<Rightarrow> multi_region
     \<Rightarrow> multi_region \<times> (SlipstreamError + TransactionResult)" where
  "submitToRegion env k region st =
     (case ensureRegionConnected env k region st of
        Inl e \<Rightarrow> (st, Inl e)
      | Inr st' \<Rightarrow>
          if region \<notin> set (clients st')
          then (st', Inl (err_connection (''No client for region: '' @ region)))
          else (st', submit_outcome env k region))"

text \<open>\<^verbatim>\<open>all.slice(0, n)\<close>: a negative end counts from the end of the array.\<close>

definition js_slice_from0 :: "'a list \<Rightarrow> int \<Rightarrow> 'a list" where
  "js_slice_from0 xs n =
     (if n < 0 then take (nat (int (length xs) + n)) xs else take (nat n) xs)"

definition getBroadcastRegions :: "multi_region \<Rightarrow> string list" where
  "getBroadcastRegions st =
     js_slice_from0 (map fst (workersByRegion st)) (maxBroadcastRegions (multiConfig st))"

definition connectedRegions :: "multi_region \<Rightarrow> string list" where
  "connectedRegions st = clients st"

definition getDefaultRegion :: "multi_region \<Rightarrow> string" where
  "getDefaultRegion st =
     (case baseConfig_region st of
        Some r \<Rightarrow> r
      | None \<Rightarrow> (case connectedRegions st of r # _ \<Rightarrow> r | [] \<Rightarrow> ''us-east''))"

definition isHighPriority :: "SubmitOptions \<Rightarrow> multi_region \<Rightarrow> bool" where
  "isHighPriority options st =
     (broadcastHighPriority (multiConfig st) \<and> broadcastMode options = Some True)"

text \<open>
  \<^verbatim>\<open>Promise.allSettled(regions.map(...))\<close>: one attempt per region; the array of settled
  results is in the order of \<open>regions\<close>, whatever the order in which the attempts finish.
  The attempts touch the router only through \<open>clients\<close>; the model runs them in list
  order.
\<close>

fun settle_all ::
  "region_env \<Rightarrow> nat \<Rightarrow> string list \<Rightarrow> multi_region
     \<Rightarrow> multi_region \<times> (SlipstreamError + TransactionResult) list" where
  "settle_all env k [] st = (st, [])"
| "settle_all env k (region # regions) st =
     (case submitToRegion env k region st of
        (st', r) \<Rightarrow> (case settle_all env (Suc k) regions st' of
                       (st'', rs) \<Rightarrow> (st'', r # rs)))"

definition is_fulfilled :: "'e + 'a \<Rightarrow> bool" where
  "is_fulfilled r = (case r of Inr _ \<Rightarrow> True | Inl _ \<Rightarrow> False)"

definition is_rejected :: "'e + 'a \<Rightarrow> bool" where
  "is_rejected r = (case r of Inl _ \<Rightarrow> True | Inr _ \<Rightarrow> False)"

definition broadcastTransaction ::
  "region_env \<Rightarrow> SubmitOptions \<Rightarrow> multi_region
     \<Rightarrow> multi_region \<times> (SlipstreamError + TransactionResult)" where
  "broadcastTransaction env options st =
     (let regions = getBroadcastRegions st
      in case settle_all env 0 regions st of
           (st', results) \<Rightarrow>
             (case find is_fulfilled results of
                Some (Inr v) \<Rightarrow> (st', Inr v)
              | _ \<Rightarrow>
                (case find is_rejected results of
                   Some (Inl reason) \<Rightarrow> (st', Inl reason)
                 | _ \<Rightarrow> (st', Inl (err_transaction ''All broadcast regions failed'')))))"

text \<open>The \<^verbatim>\<open>for\<close> loop over the fallback regions: the error of a failed attempt is dropped.\<close>

fun try_fallbacks ::
  "region_env \<Rightarrow> nat \<Rightarrow> string list \<Rightarrow> multi_region
     \<Rightarrow> multi_region \<times> TransactionResult option" where
  "try_fallbacks env k [] st = (st, None)"
| "try_fallbacks env k (fallback # rest) st =
     (case submitToRegion env k fallback st of
        (st', Inr v) \<Rightarrow> (st', Some v)
      | (st', Inl _) \<Rightarrow> try_fallbacks env (Suc k) rest st')"

definition routed_region :: "multi_region \<Rightarrow> string" where
  "routed_region st =
     (case currentRouting st of Some r \<Rightarrow> bestRegion r | None \<Rightarrow> getDefaultRegion st)"

definition routed_fallbacks :: "multi_region \<Rightarrow> string list" where
  "routed_fallbacks st =
     (case currentRouting st of Some r \<Rightarrow> fallbackRegions r | None \<Rightarrow> [])"

definition submitTransactionWithOptions ::
  "region_env \<Rightarrow> SubmitOptions \<Rightarrow> multi_region
     \<Rightarrow> multi_region \<times> (SlipstreamError + TransactionResult)" where
  "submitTransactionWithOptions env options st =
     (if broadcastMode options = Some True \<or> isHighPriority options st
      then broadcastTransaction env options st
      else
        let region = routed_region st
        in case submitToRegion env 0 region st of
             (st', Inr v) \<Rightarrow> (st', Inr v)
           | (st', Inl err) \<Rightarrow>
               (case try_fallbacks env 1 (routed_fallbacks st') st' of
                  (st'', Some v) \<Rightarrow> (st'', Inr v)
                | (st'', None) \<Rightarrow> (st'', Inl err)))"

text \<open>
  \<^verbatim>\<open>updateRoutingFromHint(hint)\<close>; \<open>now\<close> is the reading of \<^verbatim>\<open>Date.now()\<close>.
\<close>

definition updateRoutingFromHint :: "int \<Rightarrow> LeaderHint \<Rightarrow> multi_region \<Rightarrow> multi_region" where
  "updateRoutingFromHint now hint st =
     (if now - lastSwitchTime st < switchCooldownMs (multiConfig st) then st
      else if lh_confidence hint < minSwitchConfidence (multiConfig st) then st
      else
        let routing =
              \<lparr>bestRegion = preferredRegion hint,
               rr_leaderPubkey = leaderPubkey hint,
               rr_slot = lh_slot hint,
               rr_confidence = lh_confidence hint,
               expectedRttMs = Some (tpuRttMs (lh_metadata hint)),
               fallbackRegions = backupRegions hint,
               fallbackStrategy = Sequential,
               validForMs = 1000\<rparr>
        in st\<lparr>currentRouting := Some routing,
              lastSwitchTime := now,
              emitted := emitted st @ [RoutingUpdateEvent routing]\<rparr>)"

text \<open>
  The \<^verbatim>\<open>leaderHint\<close> listener that \<^verbatim>\<open>ensureRegionConnected\<close> installs on a region's
  client: the hint is re-emitted and, with \<^verbatim>\<open>autoFollowLeader\<close>, handed to
  \<open>updateRoutingFromHint\<close>.
\<close>

definition on_leaderHint :: "int \<Rightarrow> LeaderHint \<Rightarrow> multi_region \<Rightarrow> multi_region" where
  "on_leaderHint now hint st =
     (let st1 = st\<lparr>emitted := emitted st @ [LeaderHintEvent hint]\<rparr>
      in if autoFollowLeader (multiConfig st1) then updateRoutingFromHint now hint st1 else st1)"

text \<open>
  The second \<^verbatim>\<open>leaderHint\<close> listener, which \<^verbatim>\<open>create\<close> installs on the primary region's
  client: it calls \<open>updateRoutingFromHint\<close> directly. It is installed only when
  \<^verbatim>\<open>autoFollowLeader\<close> is set; without it there is no such listener and nothing happens.
\<close>

definition create_leaderHint_listener :: "int \<Rightarrow> LeaderHint \<Rightarrow> multi_region \<Rightarrow> multi_region" where
  "create_leaderHint_listener now hint st =
     (if autoFollowLeader (multiConfig st) then updateRoutingFromHint now hint st else st)"

text \<open>
  The errors met by a routed (non-broadcast) submission, in the order of the attempts: the
  attempt on the routed region, then the fallback regions up to the first that succeeds.
  The specification's "last error encountered" is the last element of this list.
\<close>

fun fallback_errors ::
  "region_env \<Rightarrow> nat \<Rightarrow> string list \<Rightarrow> multi_region \<Rightarrow> SlipstreamError list" where
  "fallback_errors env k [] st = []"
| "fallback_errors env k (fallback # rest) st =
     (case submitToRegion env k fallback st of
        (st', Inr v) \<Rightarrow> []
      | (st', Inl e) \<Rightarrow> e # fallback_errors env (Suc k) rest st')"

definition routed_errors :: "region_env \<Rightarrow> multi_region \<Rightarrow> SlipstreamError list" where
  "routed_errors env st =
     (case submitToRegion env 0 (routed_region st) st of
        (st', Inr v) \<Rightarrow> []
      | (st', Inl e) \<Rightarrow> e # fallback_errors env 1 (routed_fallbacks st') st')"

text \<open>
  The values of the fulfilled and the reasons of the rejected entries of a settled array,
  each in array order, and the condition "the routed attempt and every fallback attempt
  failed" (one error for the routed region and one for each fallback region).
\<close>

fun fulfilled_values :: "('e + 'a) list \<Rightarrow> 'a list" where
  "fulfilled_values [] = []"
| "fulfilled_values (Inr v # rs) = v # fulfilled_values rs"
| "fulfilled_values (Inl e # rs) = fulfilled_values rs"

fun rejected_reasons :: "('e + 'a) list \<Rightarrow> 'e list" where
  "rejected_reasons [] = []"
| "rejected_reasons (Inl e # rs) = e # rejected_reasons rs"
| "rejected_reasons (Inr v # rs) = rejected_reasons rs"

definition every_region_failed :: "region_env \<Rightarrow> multi_region \<Rightarrow> bool" where
  "every_region_failed env st =
     (length (routed_errors env st) = Suc (length (routed_fallbacks st)))"

section \<open>WebSocket transport (transport/websocket.ts)\<close>

text \<open>
  Messages of the JSON protocol, reduced to the fields the transport's control flow reads.
\<close>

datatype client_msg =
    MsgConnect
  | MsgSubscribe string
  | MsgUnsubscribe string
  | MsgSubmitTransaction string
  | MsgPing nat int
  | MsgPong int

datatype tx_message_type =
  TransactionAccepted | TransactionUpdate | TransactionConfirmed | TransactionFailed "string option"

datatype server_msg =
    SrvConnected
  | SrvLeaderHint
  | SrvTipInstruction
  | SrvPriorityFee
  | SrvLatestBlockhash
  | SrvLatestSlot
  | SrvTransaction tx_message_type string
  | SrvPong "int option" "nat option"
  | SrvHeartbeat
  | SrvError string
  | SrvOther

record PingResult =
  pr_seq :: nat
  rttMs :: int
  clockOffsetMs :: int
  pr_serverTime :: int

datatype ws_event =
    EvConnected
  | EvDisconnected
  | EvError SlipstreamError
  | EvLeaderHint
  | EvTipInstruction
  | EvPriorityFee
  | EvLatestBlockhash
  | EvLatestSlot
  | EvTransactionUpdate string

text \<open>
  What the transport does to the outside, in order: a message sent on a socket, an event
  emitted, a promise settled, a socket created or closed, a reconnect timer set or
  cleared.
\<close>

datatype ws_effect =
    SentOn nat client_msg
  | Emitted ws_event
  | ConnectResolved nat
  | ConnectRejected nat SlipstreamError
  | RequestResolved string
  | RequestRejected string SlipstreamError
  | SubmitRejected SlipstreamError
  | PingResolved PingResult
  | PingRejected SlipstreamError
  | SocketCreated nat
  | SocketCloseCalled nat
  | ReconnectScheduled nat nat
  | ReconnectCleared nat

text \<open>
  The fields of \<^verbatim>\<open>WebSocketTransport\<close>. Sockets and timers are numbered as they are
  created. \<open>ws\<close> is the current socket; \<open>resolved_sockets\<close> lists the sockets whose
  \<^verbatim>\<open>connect()\<close> call has set its local \<^verbatim>\<open>connectionResolved\<close>. \<open>reconnectTimer\<close> is the
  handle stored in the field and \<open>armed_timers\<close> the reconnect timers (handle, delay) that
  have been set and have neither fired nor been cleared. \<open>pendingRequests\<close> and
  \<open>subscribedStreams\<close> keep the keys of the \<^verbatim>\<open>Map\<close> and the \<^verbatim>\<open>Set\<close> in insertion
  order; a pending request owns a timeout timer for as long as it is in the map.
\<close>

record ws_transport =
  ws :: "nat option"
  connected :: bool
  reconnecting :: bool
  reconnectAttempts :: nat
  maxReconnectAttempts :: nat
  reconnectTimer :: "nat option"
  armed_timers :: "(nat \<times> nat) list"
  heartbeatTimer :: bool
  pendingRequests :: "string list"
  requestIdCounter :: nat
  subscribedStreams :: "string list"
  shouldReconnect :: bool
  pingSeq :: nat
  pendingPing :: "int option"
  resolved_sockets :: "nat list"
  next_socket :: nat
  next_timer :: nat
  effects :: "ws_effect list"

definition ws_init :: ws_transport where
  "ws_init =
     \<lparr>ws = None, connected = False, reconnecting = False, reconnectAttempts = 0,
      maxReconnectAttempts = 10, reconnectTimer = None, armed_timers = [],
      heartbeatTimer = False, pendingRequests = [], requestIdCounter = 0,
      subscribedStreams = [], shouldReconnect = True, pingSeq = 0, pendingPing = None,
      resolved_sockets = [], next_socket = 0, next_timer = 0, effects = []\<rparr>"

definition log_effect :: "ws_effect \<Rightarrow> ws_transport \<Rightarrow> ws_transport" where
  "log_effect e st = st\<lparr>effects := effects st @ [e]\<rparr>"

definition emit :: "ws_event \<Rightarrow> ws_transport \<Rightarrow> ws_transport" where
  "emit ev st = log_effect (Emitted ev) st"

definition sendMessage :: "client_msg \<Rightarrow> ws_transport \<Rightarrow> ws_transport" where
  "sendMessage msg st = (case ws st of None \<Rightarrow> st | Some sock \<Rightarrow> log_effect (SentOn sock msg) st)"

definition set_add :: "'a \<Rightarrow> 'a list \<Rightarrow> 'a list" where
  "set_add x xs = (if x \<in> set xs then xs else xs @ [x])"

definition set_delete :: "'a \<Rightarrow> 'a list \<Rightarrow> 'a list" where
  "set_delete x xs = filter (\<lambda>y. y \<noteq> x) xs"

definition stopHeartbeat :: "ws_transport \<Rightarrow> ws_transport" where
  "stopHeartbeat st = (if heartbeatTimer st then st\<lparr>heartbeatTimer := False\<rparr> else st)"

definition startHeartbeat :: "ws_transport \<Rightarrow> ws_transport" where
  "startHeartbeat st = (stopHeartbeat st)\<lparr>heartbeatTimer := True\<rparr>"

definition ws_scheduleReconnect :: "ws_transport \<Rightarrow> ws_transport" where
  "ws_scheduleReconnect st =
     (if reconnecting st \<or> reconnectAttempts st \<ge> maxReconnectAttempts st then st
      else
        let delay = min (1000 * 2 ^ reconnectAttempts st) 30000;
            timer = next_timer st
        in log_effect (ReconnectScheduled timer delay)
             (st\<lparr>reconnecting := True,
                 reconnectAttempts := reconnectAttempts st + 1,
                 reconnectTimer := Some timer,
                 armed_timers := armed_timers st @ [(timer, delay)],
                 next_timer := timer + 1\<rparr>))"

text \<open>
  \<^verbatim>\<open>connect()\<close> creates the socket and installs the four handlers below; the promise it
  returns is settled by them. \<open>created\<close> is false when the socket constructor throws.
  The rejection then carries the fixed text below; the code appends the constructor's own
  message to it.
\<close>

definition ws_connect :: "bool \<Rightarrow> ws_transport \<Rightarrow> ws_transport" where
  "ws_connect created st =
     (let sock = next_socket st
      in if created
         then log_effect (SocketCreated sock) (st\<lparr>ws := Some sock, next_socket := sock + 1\<rparr>)
         else log_effect (ConnectRejected sock (err_connection ''Failed to create WebSocket''))
                (st\<lparr>next_socket := sock + 1\<rparr>))"

definition onOpen :: "ws_transport \<Rightarrow> ws_transport" where
  "onOpen st = sendMessage MsgConnect st"

definition reject_pending :: "ws_transport \<Rightarrow> ws_transport" where
  "reject_pending st =
     st\<lparr>effects := effects st @
           map (\<lambda>rid. RequestRejected rid (err_connection ''WebSocket closed'')) (pendingRequests st),
        pendingRequests := []\<rparr>"

definition onClose :: "nat \<Rightarrow> ws_transport \<Rightarrow> ws_transport" where
  "onClose sock st =
     (let st1 = st\<lparr>connected := False\<rparr>;
          st2 = stopHeartbeat st1;
          st3 = emit EvDisconnected st2;
          st4 = (if sock \<notin> set (resolved_sockets st3)
                 then log_effect
                        (ConnectRejected sock (err_connection ''WebSocket closed before connection''))
                        (st3\<lparr>resolved_sockets := resolved_sockets st3 @ [sock]\<rparr>)
                 else st3);
          st5 = reject_pending st4
      in if shouldReconnect st5 then ws_scheduleReconnect st5 else st5)"

definition onError :: "nat \<Rightarrow> string \<Rightarrow> ws_transport \<Rightarrow> ws_transport" where
  "onError sock errMsg st =
     (let st1 = (if sock \<notin> set (resolved_sockets st)
                 then log_effect (ConnectRejected sock (err_connection errMsg))
                        (st\<lparr>resolved_sockets := resolved_sockets st @ [sock]\<rparr>)
                 else st)
      in emit (EvError (err_connection errMsg)) st1)"

definition handleMessage :: "server_msg \<Rightarrow> int \<Rightarrow> ws_transport \<Rightarrow> ws_transport" where
  "handleMessage msg now st =
     (case msg of
        SrvLeaderHint \<Rightarrow> emit EvLeaderHint st
      | SrvTipInstruction \<Rightarrow> emit EvTipInstruction st
      | SrvPriorityFee \<Rightarrow> emit EvPriorityFee st
      | SrvLatestBlockhash \<Rightarrow> emit EvLatestBlockhash st
      | SrvLatestSlot \<Rightarrow> emit EvLatestSlot st
      | SrvTransaction ty requestId \<Rightarrow>
          (let st1 =
                 (if requestId \<in> set (pendingRequests st)
                  then
                    let st0 = st\<lparr>pendingRequests := set_delete requestId (pendingRequests st)\<rparr>
                    in (case ty of
                          TransactionFailed m \<Rightarrow>
                            log_effect
                              (RequestRejected requestId
                                 (err_transaction
                                    (case m of Some t \<Rightarrow> t | None \<Rightarrow> ''Transaction failed'')))
                              st0
                        | _ \<Rightarrow> log_effect (RequestResolved requestId) st0)
                  else st)
           in emit (EvTransactionUpdate requestId) st1)
      | SrvPong server_time seq \<Rightarrow>
          (case pendingPing st of
             None \<Rightarrow> st
           | Some clientSendTime \<Rightarrow>
               let serverTime = (case server_time of Some t \<Rightarrow> t | None \<Rightarrow> now);
                   rtt = now - clientSendTime;
                   offset = serverTime - (clientSendTime + rtt div 2)
               in (log_effect
                     (PingResolved
                        \<lparr>pr_seq = (case seq of Some n \<Rightarrow> n | None \<Rightarrow> 0),
                         rttMs = rtt,
                         clockOffsetMs = offset,
                         pr_serverTime = serverTime\<rparr>)
                     st)\<lparr>pendingPing := None\<rparr>)
      | SrvHeartbeat \<Rightarrow> sendMessage (MsgPong now) st
      | SrvError m \<Rightarrow> emit (EvError (err_protocol m)) st
      | _ \<Rightarrow> st)"

text \<open>
  \<^verbatim>\<open>Math.floor(rttMs / 2)\<close> is \<open>rtt div 2\<close>: on \<open>int\<close>, \<open>div\<close> rounds towards minus
  infinity, as \<^verbatim>\<open>Math.floor\<close> does.

  The \<^verbatim>\<open>message\<close> handler: the first \<^verbatim>\<open>connected\<close> message on a socket completes the
  handshake and replays the subscriptions; everything else goes to \<open>handleMessage\<close>.
\<close>

definition replay_subscriptions :: "ws_transport \<Rightarrow> ws_transport" where
  "replay_subscriptions st =
     fold (\<lambda>stream acc. sendMessage (MsgSubscribe stream) acc) (subscribedStreams st) st"

definition onMessage :: "nat \<Rightarrow> server_msg \<Rightarrow> int \<Rightarrow> ws_transport \<Rightarrow> ws_transport" where
  "onMessage sock msg now st =
     (if sock \<notin> set (resolved_sockets st) \<and> msg = SrvConnected
      then
        let st1 = st\<lparr>resolved_sockets := resolved_sockets st @ [sock],
                     connected := True,
                     reconnectAttempts := 0\<rparr>;
            st2 = startHeartbeat st1;
            st3 = replay_subscriptions st2;
            st4 = emit EvConnected st3
        in log_effect (ConnectResolved sock) st4
      else handleMessage msg now st)"

definition ws_disconnect :: "ws_transport \<Rightarrow> ws_transport" where
  "ws_disconnect st =
     (let st1 = st\<lparr>shouldReconnect := False\<rparr>;
          st2 = stopHeartbeat st1;
          st3 = (case reconnectTimer st2 of
                   None \<Rightarrow> st2
                 | Some timer \<Rightarrow>
                     log_effect (ReconnectCleared timer)
                       (st2\<lparr>armed_timers := filter (\<lambda>t. fst t \<noteq> timer) (armed_timers st2),
                            reconnectTimer := None\<rparr>));
          st4 = (case ws st3 of
                   None \<Rightarrow> st3
                 | Some sock \<Rightarrow> log_effect (SocketCloseCalled sock) (st3\<lparr>ws := None\<rparr>))
      in st4\<lparr>connected := False\<rparr>)"

definition subscribe_stream :: "string \<Rightarrow> ws_transport \<Rightarrow> ws_transport" where
  "subscribe_stream stream st =
     (let st1 = st\<lparr>subscribedStreams := set_add stream (subscribedStreams st)\<rparr>
      in if connected st1 then sendMessage (MsgSubscribe stream) st1 else st1)"

definition subscribeLeaderHints :: "ws_transport \<Rightarrow> ws_transport" where
  "subscribeLeaderHints = subscribe_stream ''leader_hints''"

definition subscribeTipInstructions :: "ws_transport \<Rightarrow> ws_transport" where
  "subscribeTipInstructions = subscribe_stream ''tip_instructions''"

definition subscribePriorityFees :: "ws_transport \<Rightarrow> ws_transport" where
  "subscribePriorityFees = subscribe_stream ''priority_fees''"

definition subscribeLatestBlockhash :: "ws_transport \<Rightarrow> ws_transport" where
  "subscribeLatestBlockhash = subscribe_stream ''latest_blockhash''"

definition subscribeLatestSlot :: "ws_transport \<Rightarrow> ws_transport" where
  "subscribeLatestSlot = subscribe_stream ''latest_slot''"

definition unsubscribe :: "string \<Rightarrow> ws_transport \<Rightarrow> ws_transport" where
  "unsubscribe stream st =
     (let st1 = st\<lparr>subscribedStreams := set_delete stream (subscribedStreams st)\<rparr>
      in if connected st1 then sendMessage (MsgUnsubscribe stream) st1 else st1)"

text \<open>\<^verbatim>\<open>ping()\<close> at time \<open>now\<close>, and the 5 second timer it sets.\<close>

definition ping :: "int \<Rightarrow> ws_transport \<Rightarrow> ws_transport" where
  "ping now st =
     (if \<not> connected st then log_effect (PingRejected err_notConnected) st
      else
        let seq = pingSeq st;
            st1 = st\<lparr>pingSeq := pingSeq st + 1\<rparr>;
            clientSendTime = now;
            st2 = st1\<lparr>pendingPing := Some clientSendTime\<rparr>
        in sendMessage (MsgPing seq clientSendTime) st2)"

definition ping_timeout :: "ws_transport \<Rightarrow> ws_transport" where
  "ping_timeout st =
     (case pendingPing st of
        None \<Rightarrow> st
      | Some _ \<Rightarrow> (log_effect (PingRejected (err_timeout 5000)) st)\<lparr>pendingPing := None\<rparr>)"

definition string_of_int :: "int \<Rightarrow> string" where
  "string_of_int i = (if i < 0 then ''-'' @ string_of_nat (nat (- i)) else string_of_nat (nat i))"

definition ws_submitTransaction :: "int \<Rightarrow> nat option \<Rightarrow> ws_transport \<Rightarrow> ws_transport" where
  "ws_submitTransaction now timeout_opt st =
     (if \<not> connected st then log_effect (SubmitRejected err_notConnected) st
      else
        let st1 = st\<lparr>requestIdCounter := requestIdCounter st + 1\<rparr>;
            requestId = ''req_'' @ string_of_nat (requestIdCounter st1) @ ''_'' @ string_of_int now;
            st2 = st1\<lparr>pendingRequests := set_add requestId (pendingRequests st1)\<rparr>
        in sendMessage (MsgSubmitTransaction requestId) st2)"

definition request_timeout :: "string \<Rightarrow> nat \<Rightarrow> ws_transport \<Rightarrow> ws_transport" where
  "request_timeout requestId ms st =
     (if requestId \<in> set (pendingRequests st)
      then log_effect (RequestRejected requestId (err_timeout ms))
             (st\<lparr>pendingRequests := set_delete requestId (pendingRequests st)\<rparr>)
      else st)"

definition heartbeat_tick :: "int \<Rightarrow> ws_transport \<Rightarrow> ws_transport" where
  "heartbeat_tick now st =
     (if heartbeatTimer st \<and> connected st then ping now st else st)"

definition reconnect_timer_fires :: "nat \<Rightarrow> bool \<Rightarrow> ws_transport \<Rightarrow> ws_transport" where
  "reconnect_timer_fires timer created st =
     (if timer \<in> fst ` set (armed_timers st)
      then ws_connect created
             (st\<lparr>armed_timers := filter (\<lambda>t. fst t \<noteq> timer) (armed_timers st),
                 reconnecting := False\<rparr>)
      else st)"

text \<open>
  Everything that can happen to a transport: a call of its API, or a callback of a socket
  or a timer. A run is any finite sequence of these from the fresh transport.
\<close>

datatype ws_input =
    CallConnect bool
  | CallDisconnect
  | CallSubscribeLeaderHints
  | CallSubscribeTipInstructions
  | CallSubscribePriorityFees
  | CallSubscribeLatestBlockhash
  | CallSubscribeLatestSlot
  | CallUnsubscribe string
  | CallPing int
  | CallSubmitTransaction int "nat option"
  | SocketOpen nat
  | SocketMessage nat server_msg int
  | SocketError nat string
  | SocketClose nat
  | ReconnectTimerFires nat bool
  | HeartbeatTick int
  | PingTimeout
  | RequestTimeout string nat

fun ws_step :: "ws_input \<Rightarrow> ws_transport \<Rightarrow> ws_transport" where
  "ws_step (CallConnect created) st = ws_connect created st"
| "ws_step CallDisconnect st = ws_disconnect st"
| "ws_step CallSubscribeLeaderHints st = subscribeLeaderHints st"
| "ws_step CallSubscribeTipInstructions st = subscribeTipInstructions st"
| "ws_step CallSubscribePriorityFees st = subscribePriorityFees st"
| "ws_step CallSubscribeLatestBlockhash st = subscribeLatestBlockhash st"
| "ws_step CallSubscribeLatestSlot st = subscribeLatestSlot st"
| "ws_step (CallUnsubscribe stream) st = unsubscribe stream st"
| "ws_step (CallPing now) st = ping now st"
| "ws_step (CallSubmitTransaction now t) st = ws_submitTransaction now t st"
| "ws_step (SocketOpen sock) st = onOpen st"
| "ws_step (SocketMessage sock msg now) st = onMessage sock msg now st"
| "ws_step (SocketError sock errMsg) st = onError sock errMsg st"
| "ws_step (SocketClose sock) st = onClose sock st"
| "ws_step (ReconnectTimerFires timer created) st = reconnect_timer_fires timer created st"
| "ws_step (HeartbeatTick now) st = heartbeat_tick now st"
| "ws_step PingTimeout st = ping_timeout st"
| "ws_step (RequestTimeout requestId ms) st = request_timeout requestId ms st"

definition ws_run :: "ws_input list \<Rightarrow> ws_transport \<Rightarrow> ws_transport" where
  "ws_run inputs st = fold ws_step inputs st"

text \<open>Readings of the effect log: the reconnect delays set, and the error events emitted.\<close>

fun scheduled_delays :: "ws_effect list \<Rightarrow> nat list" where
  "scheduled_delays [] = []"
| "scheduled_delays (ReconnectScheduled timer delay # es) = delay # scheduled_delays es"
| "scheduled_delays (e # es) = scheduled_delays es"

fun error_events :: "ws_effect list \<Rightarrow> SlipstreamError list" where
  "error_events [] = []"
| "error_events (Emitted (EvError e) # es) = e # error_events es"
| "error_events (e # es) = error_events es"

fun request_rejections :: "ws_effect list \<Rightarrow> (string \<times> SlipstreamError) list" where
  "request_rejections [] = []"
| "request_rejections (RequestRejected rid e # es) = (rid, e) # request_rejections es"
| "request_rejections (e # es) = request_rejections es"

text \<open>
  The clock offset as the specification writes it, over the reals:
  remote timestamp minus (client send time plus half the round trip).
\<close>

definition spec_clock_offset :: "int \<Rightarrow> int \<Rightarrow> int \<Rightarrow> real" where
  "spec_clock_offset remoteTimestamp clientSendTime rtt =
     real_of_int remoteTimestamp - (real_of_int clientSendTime + real_of_int rtt / 2)"

text \<open>
  The desired subscriptions as the specification describes them: a subscribe call records
  its stream, an unsubscribe call removes it, and nothing else changes the set.
  \<open>subscribe_requests\<close> reads the streams of the subscribe requests out of an effect log.
\<close>

fun desired_step :: "ws_input \<Rightarrow> string set \<Rightarrow> string set" where
  "desired_step CallSubscribeLeaderHints D = insert ''leader_hints'' D"
| "desired_step CallSubscribeTipInstructions D = insert ''tip_instructions'' D"
| "desired_step CallSubscribePriorityFees D = insert ''priority_fees'' D"
| "desired_step CallSubscribeLatestBlockhash D = insert ''latest_blockhash'' D"
| "desired_step CallSubscribeLatestSlot D = insert ''latest_slot'' D"
| "desired_step (CallUnsubscribe stream) D = D - {stream}"
| "desired_step _ D = D"




text \<open>
  The invariant of the reconnect timers: every timer still armed is the one whose handle
  is in \<^verbatim>\<open>reconnectTimer\<close>, and a timer is armed only while \<^verbatim>\<open>reconnecting\<close> is set.
\<close>

definition timers_ok :: "ws_transport \<Rightarrow> bool" where
  "timers_ok st =
     ((\<forall>t \<in> set (armed_timers st). reconnectTimer st = Some (fst t))
      \<and> (armed_timers st \<noteq> [] \<longrightarrow> reconnecting st))"

section \<open>QUIC transport: reconnection (transport/quic.ts)\<close>

datatype quic_effect = QuicErrorEvent SlipstreamError | QuicReconnectScheduled nat

record quic_reconnect =
  q_reconnectAttempts :: nat
  q_maxReconnectAttempts :: nat
  q_reconnectTimer :: "nat option"
  q_effects :: "quic_effect list"

definition quic_scheduleReconnect :: "quic_reconnect \<Rightarrow> quic_reconnect" where
  "quic_scheduleReconnect st =
     (if q_reconnectAttempts st \<ge> q_maxReconnectAttempts st
      then st\<lparr>q_effects := q_effects st @
               [QuicErrorEvent (err_connection ''QUIC max reconnect attempts reached'')]\<rparr>
      else
        let delay = min (1000 * 2 ^ q_reconnectAttempts st) 30000
        in st\<lparr>q_reconnectAttempts := q_reconnectAttempts st + 1,
              q_reconnectTimer := Some delay,
              q_effects := q_effects st @ [QuicReconnectScheduled delay]\<rparr>)"

section \<open>Example inputs\<close>

text \<open>
  A router over three regions with the configuration of the file's own example (and the
  same router with \<^verbatim>\<open>autoFollowLeader\<close> off), a hint with adjustable confidence, and two
  environments: one where every submission fails and
  one where only \<^verbatim>\<open>ap-south\<close> accepts.
\<close>

definition demo_config :: MultiRegionConfig where
  "demo_config = \<lparr>autoFollowLeader = True, minSwitchConfidence = 70, switchCooldownMs = 5000,
     broadcastHighPriority = False, maxBroadcastRegions = 3\<rparr>"

definition demo_routing :: RoutingRecommendation where
  "demo_routing = \<lparr>bestRegion = ''us-east'', rr_leaderPubkey = None, rr_slot = 0,
     rr_confidence = 90, expectedRttMs = None, fallbackRegions = [''eu-central''],
     fallbackStrategy = Sequential, validForMs = 1000\<rparr>"

definition demo_router :: multi_region where
  "demo_router = \<lparr>baseConfig_region = None, multiConfig = demo_config, clients = [],
     workersByRegion = [(''us-east'', [''w1'']), (''eu-central'', [''w2'']), (''ap-south'', [''w3''])],
     currentRouting = Some demo_routing, lastSwitchTime = 1000, emitted = []\<rparr>"

definition demo_router_no_follow :: multi_region where
  "demo_router_no_follow =
     demo_router\<lparr>multiConfig := demo_config\<lparr>autoFollowLeader := False\<rparr>\<rparr>"

definition demo_hint :: "real \<Rightarrow> LeaderHint" where
  "demo_hint c = \<lparr>lh_timestamp = 0, lh_slot = 7, expiresAtSlot = 9, preferredRegion = ''eu-central'',
     backupRegions = [''us-east''], lh_confidence = c, leaderPubkey = None,
     lh_metadata = \<lparr>tpuRttMs = 3, regionScore = 1\<rparr>\<rparr>"

definition demo_result :: "string \<Rightarrow> TransactionResult" where
  "demo_result r = \<lparr>tr_requestId = r, tr_transactionId = ''tx'', tr_signature = None,
     tr_status = Sent, tr_timestamp = 0\<rparr>"

definition demo_env_all_fail :: region_env where
  "demo_env_all_fail = \<lparr>connect_outcome = (\<lambda>k r. None),
     submit_outcome = (\<lambda>k r. if r = ''us-east'' then Inl (err_connection ''WebSocket closed'')
                              else Inl (err_transaction ''Transaction failed''))\<rparr>"

definition demo_env_one_ok :: region_env where
  "demo_env_one_ok = \<lparr>connect_outcome = (\<lambda>k r. None),
     submit_outcome = (\<lambda>k r. if r = ''ap-south'' then Inr (demo_result r)
                              else Inl (err_connection r))\<rparr>"

definition demo_options :: "bool option \<Rightarrow> SubmitOptions" where
  "demo_options b = \<lparr>broadcastMode = b, preferredSender = None, maxRetries = None,
     timeoutMs = None, dedupId = None\<rparr>"

text \<open>
  Runs of the WebSocket transport. \<open>ten_failed_reconnects\<close>: a connection is established
  and lost, and each of the ten reconnect attempts that follow creates a socket that is
  closed before the \<^verbatim>\<open>connected\<close> message. \<open>submit_then_disconnect\<close>: a transaction is
  submitted on a live connection and \<^verbatim>\<open>disconnect()\<close> is called before any answer.
  \<open>ping_pong\<close>: a ping sent at one time is answered by a pong received at another.
  \<open>subscribe_then_connect\<close>: streams are subscribed (one of them twice) before the first
  connection is opened. \<open>connected_after_disconnect\<close>: \<^verbatim>\<open>disconnect()\<close> is called on an
  open socket whose handshake is still pending, and the server's \<^verbatim>\<open>connected\<close> message
  arrives before the socket has closed.
\<close>

definition failed_attempt :: "nat \<Rightarrow> ws_input list" where
  "failed_attempt k = [ReconnectTimerFires k True, SocketClose (Suc k)]"

definition ten_failed_reconnects :: "ws_input list" where
  "ten_failed_reconnects =
     [CallConnect True, SocketOpen 0, SocketMessage 0 SrvConnected 0, SocketClose 0]
     @ concat (map failed_attempt [0..<10])"

definition submit_then_disconnect :: "ws_input list" where
  "submit_then_disconnect =
     [CallConnect True, SocketOpen 0, SocketMessage 0 SrvConnected 0,
      CallSubmitTransaction 5 None, CallDisconnect]"

definition ping_pong :: "int \<Rightarrow> int \<Rightarrow> int \<Rightarrow> ws_input list" where
  "ping_pong sent remote received =
     [CallConnect True, SocketOpen 0, SocketMessage 0 SrvConnected 0,
      CallPing sent, SocketMessage 0 (SrvPong (Some remote) (Some 0)) received]"



definition submit_on_live_connection :: "ws_input list" where
  "submit_on_live_connection =
     [CallConnect True, SocketOpen 0, SocketMessage 0 SrvConnected 0,
      CallSubmitTransaction 5 None]"

section \<open>Properties of the client metrics\<close>

lemma client_submit_keeps_order:
  "txConfirmed c \<le> txSubmitted c \<Longrightarrow>
   txConfirmed (fst (client_submitTransactionWithOptions s f out c))
     \<le> txSubmitted (fst (client_submitTransactionWithOptions s f out c))"
  by (cases out) (simp_all add: client_submitTransactionWithOptions_def Let_def)

lemma client_run_keeps_order:
  "txConfirmed c \<le> txSubmitted c \<Longrightarrow>
   txConfirmed (client_run calls c) \<le> txSubmitted (client_run calls c)"
proof (induction calls arbitrary: c)
  case Nil
  then show ?case by simp
next
  case (Cons call calls)
  obtain s f out where call: "call = (s, f, out)"
    by (cases call) auto
  from Cons.prems have "txConfirmed (fst (client_submitTransactionWithOptions s f out c))
     \<le> txSubmitted (fst (client_submitTransactionWithOptions s f out c))"
    by (rule client_submit_keeps_order)
  then show ?case
    unfolding call by (simp add: Cons.IH)
qed

text \<open>
  C10. In every client state reachable from a fresh client by completed submissions,
  \<^verbatim>\<open>metrics()\<close> is well defined: with no submission yet, the average latency and the
  success rate are both 0 (the division is guarded); the confirmed count never exceeds the
  submitted count; and the success rate lies between 0 and 1.
\<close>

theorem metrics_well_defined:
  "(txSubmitted (client_run calls client_init) = 0 \<longrightarrow>
      averageLatencyMs (metrics (client_run calls client_init)) = 0 \<and>
      successRate (metrics (client_run calls client_init)) = 0) \<and>
   transactionsConfirmed (metrics (client_run calls client_init))
     \<le> transactionsSubmitted (metrics (client_run calls client_init)) \<and>
   0 \<le> successRate (metrics (client_run calls client_init)) \<and>
   successRate (metrics (client_run calls client_init)) \<le> 1"
proof -
  let ?c = "client_run calls client_init"
  have ord: "txConfirmed ?c \<le> txSubmitted ?c"
    by (rule client_run_keeps_order) (simp add: client_init_def)
  have rate: "successRate (metrics ?c) \<le> 1"
  proof (cases "txSubmitted ?c > 0")
    case True
    with ord have "real (txConfirmed ?c) / real (txSubmitted ?c) \<le> 1"
      by (simp add: divide_le_eq_1)
    with True show ?thesis by (simp add: metrics_def)
  next
    case False
    then show ?thesis by (simp add: metrics_def)
  qed
  have pos: "0 \<le> successRate (metrics ?c)"
    by (simp add: metrics_def)
  from ord rate pos show ?thesis
    by (simp add: metrics_def)
qed

theorem metrics_well_defined_witness:
  "txSubmitted (client_run [] client_init) = 0 \<and>
   averageLatencyMs (metrics (client_run [] client_init)) = 0 \<and>
   successRate (metrics (client_run [] client_init)) = 0"
  using metrics_well_defined [of "[]"] by (simp add: client_init_def)

section \<open>Properties of the binary codec\<close>

lemmas codec_defs =
  buf_index_def js_add_def js_less_def js_less_eq_def to_integer_def subarray_def
  read_uint_be_def readUInt16BE_def readUInt32BE_def readBigUInt64BE_def
  STREAM_TYPE_LeaderHints_def STREAM_TYPE_TipInstructions_def STREAM_TYPE_PriorityFees_def
  STREAM_TYPE_LatestBlockhash_def STREAM_TYPE_LatestSlot_def STREAM_TYPE_Ping_def

text \<open>Every decoder answers \<^verbatim>\<open>null\<close> on the empty buffer.\<close>

lemma decoders_null_on_empty:
  "parseLeaderHint [] = Inr None" "parseTipInstruction [] = Inr None"
  "parsePriorityFee [] = Inr None" "parseLatestBlockhash [] = Inr None"
  "parseLatestSlot [] = Inr None"
  by (simp_all add: parseLeaderHint_def parseTipInstruction_def parsePriorityFee_def
      parseLatestBlockhash_def parseLatestSlot_def)

text \<open>
  \<^verbatim>\<open>parseLatestSlot\<close> on a non-empty buffer: it throws exactly when fewer than 16 bytes
  follow the optional tag byte, and it never answers \<^verbatim>\<open>null\<close>.
\<close>

lemma parseLatestSlot_throws_iff:
  assumes "buf \<noteq> []"
  shows "parseLatestSlot buf = Inl RangeError \<longleftrightarrow>
         length buf < 16 + (if unat (hd buf) = 7 then 1 else 0)"
proof -
  from assms obtain b bs where buf: "buf = b # bs"
    by (cases buf) auto
  show ?thesis
    unfolding buf
    by (simp add: parseLatestSlot_def codec_defs Let_def split: sum.splits)
qed

text \<open>
  \<^verbatim>\<open>parsePongFrame\<close> checks the whole length first and so never throws.
\<close>

lemma parsePongFrame_never_throws: "parsePongFrame buf \<noteq> Inl e"
  by (simp add: parsePongFrame_def codec_defs Let_def split: sum.splits)

text \<open>
  C1. The claim is that the five streaming decoders never throw on truncated input. Each
  of them does: on the truncated buffers below (a tag byte followed by too few bytes) the
  first fixed-width read lies outside the buffer and raises \<^verbatim>\<open>RangeError\<close>, where the
  claim requires the \<^verbatim>\<open>null\<close> sentinel.
\<close>

theorem stream_decoders_throw_on_truncated:
  "parseLeaderHint [2, 0] = Inl RangeError \<and>
   parseTipInstruction [3, 0, 0] = Inl RangeError \<and>
   parsePriorityFee [4] = Inl RangeError \<and>
   parseLatestBlockhash [6, 0] = Inl RangeError \<and>
   parseLatestSlot [7] = Inl RangeError"
  by (simp add: parseLeaderHint_def parseTipInstruction_def parsePriorityFee_def
      parseLatestBlockhash_def parseLatestSlot_def codec_defs Let_def)

text \<open>
  \<open>buildAuthFrame\<close> with a non-empty tier follows the layout of the frame table; with no
  tier (or the empty string) it is the key prefix and the version string alone.
\<close>

lemma buildAuthFrame_with_tier:
  "t \<noteq> [] \<Longrightarrow> buildAuthFrame apiKey (Some t) = spec_auth_layout apiKey (Some t)"
  by (simp add: buildAuthFrame_def spec_auth_layout_def Let_def)

lemma buildAuthFrame_without_tier:
  "tier = None \<or> tier = Some [] \<Longrightarrow>
   buildAuthFrame apiKey tier =
     take 8 (utf8_bytes apiKey) @ replicate (8 - length (utf8_bytes apiKey)) 0
       @ utf8_bytes SDK_VERSION"
  by (auto simp add: buildAuthFrame_def Let_def min_def)

text \<open>
  C9. The claim is that the version string is always followed by a null terminator. With
  no tier the frame built for the key \<^verbatim>\<open>sk_test_12345678\<close> ends with the last byte of the
  version string: it is one byte shorter than the layout of the frame table and carries no
  null byte at all.
\<close>

theorem buildAuthFrame_no_tier_lacks_terminator:
  "buildAuthFrame ''sk_test_12345678'' None = utf8_bytes ''sk_test_ts-sdk-v0.1'' \<and>
   spec_auth_layout ''sk_test_12345678'' None = utf8_bytes ''sk_test_ts-sdk-v0.1'' @ [0] \<and>
   0 \<notin> set (buildAuthFrame ''sk_test_12345678'' None)"
  by (simp add: buildAuthFrame_def spec_auth_layout_def utf8_bytes_def SDK_VERSION_def Let_def)

section \<open>Properties of the multi-region router\<close>

lemmas router_defs =
  submitTransactionWithOptions_def broadcastTransaction_def submitToRegion_def
  ensureRegionConnected_def getBroadcastRegions_def js_slice_from0_def isHighPriority_def
  routed_region_def routed_fallbacks_def routed_errors_def getDefaultRegion_def
  connectedRegions_def is_fulfilled_def is_rejected_def Let_def

lemmas demo_defs =
  demo_config_def demo_routing_def demo_router_def demo_hint_def demo_result_def
  demo_env_all_fail_def demo_env_one_ok_def demo_options_def

lemma ensureRegionConnected_routing:
  "ensureRegionConnected env k region st = Inr st' \<Longrightarrow>
   currentRouting st' = currentRouting st \<and> multiConfig st' = multiConfig st
   \<and> workersByRegion st' = workersByRegion st"
  by (auto simp: ensureRegionConnected_def split: if_splits option.splits)

lemma submitToRegion_routing:
  "submitToRegion env k region st = (st', r) \<Longrightarrow>
   currentRouting st' = currentRouting st \<and> multiConfig st' = multiConfig st
   \<and> workersByRegion st' = workersByRegion st"
  by (auto simp: submitToRegion_def split: sum.splits if_splits dest: ensureRegionConnected_routing)

lemma submitToRegion_fallbacks:
  "submitToRegion env k region st = (st', r) \<Longrightarrow> routed_fallbacks st' = routed_fallbacks st"
  by (simp add: routed_fallbacks_def submitToRegion_routing)

lemma fallback_errors_length: "length (fallback_errors env k rs st) \<le> length rs"
proof (induction rs arbitrary: k st)
  case Nil
  then show ?case by simp
next
  case (Cons r rs)
  show ?case
  proof (cases "submitToRegion env k r st")
    case (Pair st' res)
    then show ?thesis
      using Cons.IH [of "Suc k" st'] by (cases res) auto
  qed
qed

lemma try_fallbacks_all_failed:
  "length (fallback_errors env k rs st) = length rs \<Longrightarrow> snd (try_fallbacks env k rs st) = None"
proof (induction rs arbitrary: k st)
  case Nil
  then show ?case by simp
next
  case (Cons r rs)
  show ?case
  proof (cases "submitToRegion env k r st")
    case (Pair st' res)
    show ?thesis
    proof (cases res)
      case (Inl e)
      with Pair Cons.prems have "length (fallback_errors env (Suc k) rs st') = length rs"
        by simp
      then have "snd (try_fallbacks env (Suc k) rs st') = None"
        by (rule Cons.IH)
      with Pair Inl show ?thesis by simp
    next
      case (Inr v)
      with Pair Cons.prems show ?thesis by simp
    qed
  qed
qed

lemma settle_all_length: "length (snd (settle_all env k regions st)) = length regions"
proof (induction regions arbitrary: k st)
  case Nil
  then show ?case by simp
next
  case (Cons r regions)
  obtain st' res where a: "submitToRegion env k r st = (st', res)"
    by (cases "submitToRegion env k r st") auto
  obtain st'' rs where b: "settle_all env (Suc k) regions st' = (st'', rs)"
    by (cases "settle_all env (Suc k) regions st'") auto
  from Cons.IH [of "Suc k" st'] b have "length rs = length regions"
    by simp
  with a b show ?case by simp
qed

lemma find_fulfilled:
  "find is_fulfilled rs = (case fulfilled_values rs of [] \<Rightarrow> None | v # _ \<Rightarrow> Some (Inr v))"
  by (induction rs rule: fulfilled_values.induct) (auto simp: is_fulfilled_def split: list.splits)

lemma find_rejected:
  "find is_rejected rs = (case rejected_reasons rs of [] \<Rightarrow> None | e # _ \<Rightarrow> Some (Inl e))"
  by (induction rs rule: rejected_reasons.induct) (auto simp: is_rejected_def split: list.splits)

lemma no_fulfilled_all_rejected:
  "fulfilled_values rs = [] \<Longrightarrow> map Inl (rejected_reasons rs) = rs"
  by (induction rs rule: fulfilled_values.induct) auto

lemma js_slice_from0_length:
  "0 \<le> n \<Longrightarrow> int (length (js_slice_from0 xs n)) \<le> n"
  by (simp add: js_slice_from0_def)

text \<open>
  The listener hands a hint to \<open>updateRoutingFromHint\<close> exactly when
  \<^verbatim>\<open>autoFollowLeader\<close> is set; otherwise it only re-emits the hint.
\<close>

lemma on_leaderHint_routing:
  "currentRouting (on_leaderHint now hint st) =
     (if autoFollowLeader (multiConfig st)
      then currentRouting (updateRoutingFromHint now hint st)
      else currentRouting st)"
  by (simp add: on_leaderHint_def updateRoutingFromHint_def Let_def)

text \<open>
  C5 as stated: every incoming hint that passes both gates updates \<^verbatim>\<open>currentRouting\<close>.
  It does not when \<^verbatim>\<open>autoFollowLeader\<close> is off: the listener re-emits the hint and never
  calls \<^verbatim>\<open>updateRoutingFromHint\<close>. A hint of confidence 95 (minimum 70) arriving 6000 ms
  after the last switch (cooldown 5000 ms) leaves \<^verbatim>\<open>currentRouting\<close> as it was and emits
  no \<^verbatim>\<open>routingUpdate\<close>.
\<close>

theorem leaderHint_without_autoFollow_counterexample:
  "minSwitchConfidence (multiConfig demo_router_no_follow) \<le> lh_confidence (demo_hint 95) \<and>
   switchCooldownMs (multiConfig demo_router_no_follow) \<le> 7000 - lastSwitchTime demo_router_no_follow \<and>
   currentRouting (on_leaderHint 7000 (demo_hint 95) demo_router_no_follow)
     = currentRouting demo_router_no_follow \<and>
   emitted (on_leaderHint 7000 (demo_hint 95) demo_router_no_follow)
     = [LeaderHintEvent (demo_hint 95)]"
  by (simp add: on_leaderHint_def demo_router_no_follow_def demo_defs Let_def)

text \<open>
  C5 as amended, for both \<^verbatim>\<open>leaderHint\<close> listeners of the router. For every incoming
  hint: if \<^verbatim>\<open>autoFollowLeader\<close> is off, or the hint's confidence is below
  \<^verbatim>\<open>minSwitchConfidence\<close>, or less than \<^verbatim>\<open>switchCooldownMs\<close> has passed since the last
  accepted switch, then \<^verbatim>\<open>currentRouting\<close> and the switch time are unchanged and no
  \<^verbatim>\<open>routingUpdate\<close> is emitted (the forwarding listener still re-emits the hint). With
  \<^verbatim>\<open>autoFollowLeader\<close> on, a hint passing both gates sets \<^verbatim>\<open>currentRouting\<close> to a
  recommendation with the hint's preferred region as best region, its backup regions as
  fallback list and a validity window of 1000 ms, records the switch time, and emits one
  \<^verbatim>\<open>routingUpdate\<close> event carrying that recommendation.
\<close>

theorem leaderHint_listener_gates:
  "(\<not> autoFollowLeader (multiConfig st)
      \<or> lh_confidence hint < minSwitchConfidence (multiConfig st)
      \<or> now - lastSwitchTime st < switchCooldownMs (multiConfig st)
    \<longrightarrow> currentRouting (on_leaderHint now hint st) = currentRouting st
        \<and> lastSwitchTime (on_leaderHint now hint st) = lastSwitchTime st
        \<and> emitted (on_leaderHint now hint st) = emitted st @ [LeaderHintEvent hint]
        \<and> create_leaderHint_listener now hint st = st) \<and>
   (autoFollowLeader (multiConfig st)
      \<and> minSwitchConfidence (multiConfig st) \<le> lh_confidence hint
      \<and> switchCooldownMs (multiConfig st) \<le> now - lastSwitchTime st
    \<longrightarrow> (\<exists>r. bestRegion r = preferredRegion hint
            \<and> fallbackRegions r = backupRegions hint
            \<and> validForMs r = 1000
            \<and> currentRouting (on_leaderHint now hint st) = Some r
            \<and> lastSwitchTime (on_leaderHint now hint st) = now
            \<and> emitted (on_leaderHint now hint st)
                = emitted st @ [LeaderHintEvent hint, RoutingUpdateEvent r]
            \<and> currentRouting (create_leaderHint_listener now hint st) = Some r
            \<and> lastSwitchTime (create_leaderHint_listener now hint st) = now
            \<and> emitted (create_leaderHint_listener now hint st)
                = emitted st @ [RoutingUpdateEvent r]))"
  by (auto simp add: on_leaderHint_def create_leaderHint_listener_def updateRoutingFromHint_def
      Let_def)

theorem leaderHint_listener_gates_witness:
  "currentRouting (on_leaderHint 7000 (demo_hint 95) demo_router_no_follow) = Some demo_routing \<and>
   currentRouting (on_leaderHint 7000 (demo_hint 50) demo_router) = Some demo_routing \<and>
   currentRouting (on_leaderHint 3000 (demo_hint 95) demo_router) = Some demo_routing \<and>
   (\<exists>r. bestRegion r = ''eu-central'' \<and> fallbackRegions r = [''us-east''] \<and> validForMs r = 1000
      \<and> currentRouting (on_leaderHint 7000 (demo_hint 95) demo_router) = Some r
      \<and> emitted (on_leaderHint 7000 (demo_hint 95) demo_router)
          = [LeaderHintEvent (demo_hint 95), RoutingUpdateEvent r])"
proof -
  have off: "\<not> autoFollowLeader (multiConfig demo_router_no_follow)"
    by (simp add: demo_router_no_follow_def)
  have low: "lh_confidence (demo_hint 50) < minSwitchConfidence (multiConfig demo_router)"
    by (simp add: demo_defs)
  have early: "3000 - lastSwitchTime demo_router < switchCooldownMs (multiConfig demo_router)"
    by (simp add: demo_defs)
  have pass: "autoFollowLeader (multiConfig demo_router)
      \<and> minSwitchConfidence (multiConfig demo_router) \<le> lh_confidence (demo_hint 95)
      \<and> switchCooldownMs (multiConfig demo_router) \<le> 7000 - lastSwitchTime demo_router"
    by (simp add: demo_defs)
  have cur: "currentRouting demo_router_no_follow = Some demo_routing"
    "currentRouting demo_router = Some demo_routing"
    by (simp_all add: demo_router_no_follow_def demo_router_def)
  have a: "currentRouting (on_leaderHint 7000 (demo_hint 95) demo_router_no_follow)
      = currentRouting demo_router_no_follow"
    using leaderHint_listener_gates [of demo_router_no_follow "demo_hint 95" 7000] off by blast
  have b: "currentRouting (on_leaderHint 7000 (demo_hint 50) demo_router) = currentRouting demo_router"
    using leaderHint_listener_gates [of demo_router "demo_hint 50" 7000] low by blast
  have c: "currentRouting (on_leaderHint 3000 (demo_hint 95) demo_router) = currentRouting demo_router"
    using leaderHint_listener_gates [of demo_router "demo_hint 95" 3000] early by blast
  have d: "\<exists>r. bestRegion r = preferredRegion (demo_hint 95)
      \<and> fallbackRegions r = backupRegions (demo_hint 95)
      \<and> validForMs r = 1000
      \<and> currentRouting (on_leaderHint 7000 (demo_hint 95) demo_router) = Some r
      \<and> emitted (on_leaderHint 7000 (demo_hint 95) demo_router)
          = emitted demo_router @ [LeaderHintEvent (demo_hint 95), RoutingUpdateEvent r]"
    using leaderHint_listener_gates [of demo_router "demo_hint 95" 7000] pass by blast
  have e: "preferredRegion (demo_hint 95) = ''eu-central''"
    "backupRegions (demo_hint 95) = [''us-east'']" "emitted demo_router = []"
    by (simp_all add: demo_defs)
  from a b c d show ?thesis
    unfolding e cur by auto
qed

text \<open>
  C3 as stated: when the routed attempt and every fallback attempt fail, the call re-raises
  the last error encountered. It does not: with the best region failing with a CONNECTION
  error and the only fallback region failing with a TRANSACTION error, the error raised is
  not the last one.
\<close>

theorem routed_submit_last_error_counterexample:
  "every_region_failed demo_env_all_fail demo_router \<and>
   snd (submitTransactionWithOptions demo_env_all_fail (demo_options None) demo_router)
     \<noteq> Inl (last (routed_errors demo_env_all_fail demo_router))"
  by (simp add: every_region_failed_def router_defs demo_defs err_connection_def err_transaction_def)

text \<open>
  C3 as amended: for every routed (non-broadcast) submission where the attempt on the
  current best region and the attempts on all regions of the hint's fallback list fail,
  \<^verbatim>\<open>submitTransactionWithOptions\<close> re-raises the error of the first attempt, the one on
  the best region; the errors of the fallback attempts are dropped.
\<close>

theorem routed_submit_reraises_first_error:
  assumes nb: "broadcastMode options \<noteq> Some True"
    and fail: "every_region_failed env st"
  shows "snd (submitTransactionWithOptions env options st) = Inl (hd (routed_errors env st))"
proof (cases "submitToRegion env 0 (routed_region st) st")
  case (Pair st' res)
  show ?thesis
  proof (cases res)
    case (Inr v)
    with Pair fail show ?thesis
      by (simp add: every_region_failed_def routed_errors_def)
  next
    case (Inl err)
    from Pair have fb: "routed_fallbacks st' = routed_fallbacks st"
      by (rule submitToRegion_fallbacks)
    from fail Pair Inl fb
    have "length (fallback_errors env 1 (routed_fallbacks st') st') = length (routed_fallbacks st')"
      by (simp add: every_region_failed_def routed_errors_def)
    then have none: "snd (try_fallbacks env 1 (routed_fallbacks st') st') = None"
      by (rule try_fallbacks_all_failed)
    obtain st'' where tf: "try_fallbacks env 1 (routed_fallbacks st') st' = (st'', None)"
      using none by (cases "try_fallbacks env 1 (routed_fallbacks st') st'") auto
    from nb have "\<not> isHighPriority options st"
      by (simp add: isHighPriority_def)
    with nb Pair Inl tf show ?thesis
      by (simp add: submitTransactionWithOptions_def routed_errors_def Let_def)
  qed
qed

theorem routed_submit_reraises_first_error_witness:
  "broadcastMode (demo_options None) \<noteq> Some True \<and>
   every_region_failed demo_env_all_fail demo_router \<and>
   snd (submitTransactionWithOptions demo_env_all_fail (demo_options None) demo_router)
     = Inl (err_connection ''WebSocket closed'')"
proof -
  have a: "broadcastMode (demo_options None) \<noteq> Some True"
    by (simp add: demo_options_def)
  have b: "every_region_failed demo_env_all_fail demo_router"
    by (simp add: every_region_failed_def router_defs demo_defs)
  have c: "hd (routed_errors demo_env_all_fail demo_router) = err_connection ''WebSocket closed''"
    by (simp add: router_defs demo_defs)
  from routed_submit_reraises_first_error [OF a b] a b c show ?thesis
    by simp
qed

text \<open>
  C6. For every broadcast submission (\<^verbatim>\<open>broadcastMode\<close> set): the regions attempted are
  the first regions of \<^verbatim>\<open>workersByRegion\<close>, at most \<^verbatim>\<open>maxBroadcastRegions\<close> of them
  (for a non-negative maximum), with one settled result per region. If some attempt
  succeeds, the call resolves with the first success in the order of the regions. If every
  attempt fails (and there is at least one), the call rejects with the reason of the first
  settled result, which is the first failure.
\<close>

theorem broadcast_first_success_else_first_failure:
  assumes bm: "broadcastMode options = Some True"
  shows
   "(0 \<le> maxBroadcastRegions (multiConfig st) \<longrightarrow>
       int (length (getBroadcastRegions st)) \<le> maxBroadcastRegions (multiConfig st)) \<and>
    length (snd (settle_all env 0 (getBroadcastRegions st) st)) = length (getBroadcastRegions st) \<and>
    (fulfilled_values (snd (settle_all env 0 (getBroadcastRegions st) st)) \<noteq> [] \<longrightarrow>
       snd (submitTransactionWithOptions env options st)
         = Inr (hd (fulfilled_values (snd (settle_all env 0 (getBroadcastRegions st) st))))) \<and>
    (fulfilled_values (snd (settle_all env 0 (getBroadcastRegions st) st)) = []
       \<and> getBroadcastRegions st \<noteq> [] \<longrightarrow>
       snd (submitTransactionWithOptions env options st)
         = hd (snd (settle_all env 0 (getBroadcastRegions st) st)) \<and>
       snd (submitTransactionWithOptions env options st)
         = Inl (hd (rejected_reasons (snd (settle_all env 0 (getBroadcastRegions st) st)))))"
proof -
  let ?regions = "getBroadcastRegions st"
  obtain st' results where sa: "settle_all env 0 ?regions st = (st', results)"
    by (cases "settle_all env 0 ?regions st") auto
  have len: "length results = length ?regions"
    using settle_all_length [of env 0 ?regions st] sa by simp
  have out: "snd (submitTransactionWithOptions env options st) =
       (case fulfilled_values results of
          v # _ \<Rightarrow> Inr v
        | [] \<Rightarrow> (case rejected_reasons results of
                  e # _ \<Rightarrow> Inl e
                | [] \<Rightarrow> Inl (err_transaction ''All broadcast regions failed'')))"
    using bm sa
    by (simp add: submitTransactionWithOptions_def broadcastTransaction_def Let_def
        find_fulfilled find_rejected split: list.splits)
  have c1: "0 \<le> maxBroadcastRegions (multiConfig st) \<longrightarrow>
       int (length ?regions) \<le> maxBroadcastRegions (multiConfig st)"
    by (simp add: getBroadcastRegions_def js_slice_from0_length)
  have c3: "fulfilled_values results \<noteq> [] \<longrightarrow>
       snd (submitTransactionWithOptions env options st) = Inr (hd (fulfilled_values results))"
    by (simp add: out split: list.splits)
  have c4: "fulfilled_values results = [] \<and> ?regions \<noteq> [] \<longrightarrow>
       snd (submitTransactionWithOptions env options st) = hd results \<and>
       snd (submitTransactionWithOptions env options st) = Inl (hd (rejected_reasons results))"
  proof (intro impI)
    assume h: "fulfilled_values results = [] \<and> ?regions \<noteq> []"
    then have ne: "results \<noteq> []" using len by auto
    from h have all: "map Inl (rejected_reasons results) = results"
      by (simp add: no_fulfilled_all_rejected)
    with ne obtain e es where rr: "rejected_reasons results = e # es"
      by (cases "rejected_reasons results") auto
    with all have "hd results = Inl e"
      by (metis list.sel(1) list.simps(9))
    with h rr show "snd (submitTransactionWithOptions env options st) = hd results \<and>
       snd (submitTransactionWithOptions env options st) = Inl (hd (rejected_reasons results))"
      by (simp add: out)
  qed
  show ?thesis
    unfolding sa snd_conv by (intro conjI c1 len c3 c4)
qed

theorem broadcast_first_success_else_first_failure_witness:
  "broadcastMode (demo_options (Some True)) = Some True \<and>
   0 \<le> maxBroadcastRegions (multiConfig demo_router) \<and>
   int (length (getBroadcastRegions demo_router)) \<le> maxBroadcastRegions (multiConfig demo_router) \<and>
   getBroadcastRegions demo_router \<noteq> [] \<and>
   snd (submitTransactionWithOptions demo_env_one_ok (demo_options (Some True)) demo_router)
     = Inr (demo_result ''ap-south'') \<and>
   snd (submitTransactionWithOptions demo_env_all_fail (demo_options (Some True)) demo_router)
     = Inl (err_connection ''WebSocket closed'')"
proof -
  have bm: "broadcastMode (demo_options (Some True)) = Some True"
    by (simp add: demo_options_def)
  have mx: "0 \<le> maxBroadcastRegions (multiConfig demo_router)"
    by (simp add: demo_defs)
  have regions: "getBroadcastRegions demo_router = [''us-east'', ''eu-central'', ''ap-south'']"
    by (simp add: getBroadcastRegions_def js_slice_from0_def demo_defs)
  have ok: "fulfilled_values (snd (settle_all demo_env_one_ok 0
              (getBroadcastRegions demo_router) demo_router)) = [demo_result ''ap-south'']"
    unfolding regions by (simp add: router_defs demo_defs)
  have bad: "fulfilled_values (snd (settle_all demo_env_all_fail 0
              (getBroadcastRegions demo_router) demo_router)) = []"
    unfolding regions by (simp add: router_defs demo_defs)
  have first: "hd (snd (settle_all demo_env_all_fail 0
              (getBroadcastRegions demo_router) demo_router)) = Inl (err_connection ''WebSocket closed'')"
    unfolding regions by (simp add: router_defs demo_defs)
  have ne: "getBroadcastRegions demo_router \<noteq> []"
    by (simp add: regions)
  have a: "snd (submitTransactionWithOptions demo_env_one_ok (demo_options (Some True)) demo_router)
     = Inr (demo_result ''ap-south'')"
    using broadcast_first_success_else_first_failure [OF bm, of demo_router demo_env_one_ok] ok
    by simp
  have b: "snd (submitTransactionWithOptions demo_env_all_fail (demo_options (Some True)) demo_router)
     = Inl (err_connection ''WebSocket closed'')"
    using broadcast_first_success_else_first_failure [OF bm, of demo_router demo_env_all_fail]
      bad ne first
    by simp
  have c: "int (length (getBroadcastRegions demo_router)) \<le> maxBroadcastRegions (multiConfig demo_router)"
    using broadcast_first_success_else_first_failure [OF bm, of demo_router demo_env_one_ok] mx
    by blast
  from bm mx c ne a b show ?thesis
    by blast
qed

section \<open>Properties of the WebSocket transport\<close>

lemmas ws_basic_defs =
  log_effect_def emit_def sendMessage_def stopHeartbeat_def startHeartbeat_def
  reject_pending_def

lemmas ws_op_defs =
  ws_connect_def onOpen_def onClose_def onError_def handleMessage_def onMessage_def
  ws_disconnect_def subscribe_stream_def subscribeLeaderHints_def subscribeTipInstructions_def
  subscribePriorityFees_def subscribeLatestBlockhash_def subscribeLatestSlot_def
  unsubscribe_def ping_def ping_timeout_def ws_submitTransaction_def request_timeout_def
  heartbeat_tick_def reconnect_timer_fires_def ws_scheduleReconnect_def

lemma fold_sendMessage:
  "fold (\<lambda>stream acc. sendMessage (MsgSubscribe stream) acc) xs st =
   st\<lparr>effects := effects st @
         (case ws st of None \<Rightarrow> []
          | Some sock \<Rightarrow> map (\<lambda>s. SentOn sock (MsgSubscribe s)) xs)\<rparr>"
proof (induction xs arbitrary: st)
  case Nil
  then show ?case by (simp split: option.splits)
next
  case (Cons x xs)
  have "fold (\<lambda>stream acc. sendMessage (MsgSubscribe stream) acc) (x # xs) st =
        fold (\<lambda>stream acc. sendMessage (MsgSubscribe stream) acc) xs
          (sendMessage (MsgSubscribe x) st)"
    by simp
  also have "\<dots> = (sendMessage (MsgSubscribe x) st)\<lparr>effects :=
        effects (sendMessage (MsgSubscribe x) st) @
         (case ws (sendMessage (MsgSubscribe x) st) of None \<Rightarrow> []
          | Some sock \<Rightarrow> map (\<lambda>s. SentOn sock (MsgSubscribe s)) xs)\<rparr>"
    by (rule Cons.IH)
  also have "\<dots> = st\<lparr>effects := effects st @
         (case ws st of None \<Rightarrow> []
          | Some sock \<Rightarrow> map (\<lambda>s. SentOn sock (MsgSubscribe s)) (x # xs))\<rparr>"
    by (simp add: sendMessage_def log_effect_def split: option.splits)
  finally show ?case .
qed

lemma replay_subscriptions_eq:
  "replay_subscriptions st =
   st\<lparr>effects := effects st @
         (case ws st of None \<Rightarrow> []
          | Some sock \<Rightarrow> map (\<lambda>s. SentOn sock (MsgSubscribe s)) (subscribedStreams st))\<rparr>"
  by (simp add: replay_subscriptions_def fold_sendMessage)








lemma ws_run_snoc: "ws_run (inputs @ [i]) st = ws_step i (ws_run inputs st)"
  by (simp add: ws_run_def)


lemma timers_ok_frame:
  "armed_timers st' = armed_timers st \<Longrightarrow> reconnectTimer st' = reconnectTimer st \<Longrightarrow>
   reconnecting st' = reconnecting st \<Longrightarrow> timers_ok st \<Longrightarrow> timers_ok st'"
  by (simp add: timers_ok_def)

lemma scheduleReconnect_timers_ok: "timers_ok st \<Longrightarrow> timers_ok (ws_scheduleReconnect st)"
  by (auto simp: timers_ok_def ws_scheduleReconnect_def log_effect_def Let_def)

lemma handleMessage_timers:
  "armed_timers (handleMessage msg now st) = armed_timers st"
  "reconnectTimer (handleMessage msg now st) = reconnectTimer st"
  "reconnecting (handleMessage msg now st) = reconnecting st"
  by (simp_all add: handleMessage_def ws_basic_defs Let_def
      split: server_msg.splits tx_message_type.splits option.splits)

lemma onMessage_timers:
  "armed_timers (onMessage sock msg now st) = armed_timers st"
  "reconnectTimer (onMessage sock msg now st) = reconnectTimer st"
  "reconnecting (onMessage sock msg now st) = reconnecting st"
  by (simp_all add: onMessage_def handleMessage_timers replay_subscriptions_eq ws_basic_defs Let_def)

lemma onClose_timers_ok: "timers_ok st \<Longrightarrow> timers_ok (onClose sock st)"
proof -
  assume ok: "timers_ok st"
  let ?st5 = "reject_pending
     (let st3 = emit EvDisconnected (stopHeartbeat (st\<lparr>connected := False\<rparr>))
      in if sock \<notin> set (resolved_sockets st3)
         then log_effect (ConnectRejected sock (err_connection ''WebSocket closed before connection''))
                (st3\<lparr>resolved_sockets := resolved_sockets st3 @ [sock]\<rparr>)
         else st3)"
  have "timers_ok ?st5"
    using ok by (simp add: timers_ok_def ws_basic_defs Let_def)
  moreover have "onClose sock st = (if shouldReconnect ?st5 then ws_scheduleReconnect ?st5 else ?st5)"
    by (simp add: onClose_def Let_def)
  ultimately show ?thesis
    by (simp add: scheduleReconnect_timers_ok)
qed

lemma disconnect_armed: "timers_ok st \<Longrightarrow> armed_timers (ws_disconnect st) = []"
proof -
  assume ok: "timers_ok st"
  show ?thesis
  proof (cases "reconnectTimer st")
    case None
    with ok have "armed_timers st = []"
      by (cases "armed_timers st") (auto simp: timers_ok_def)
    with None show ?thesis
      by (simp add: ws_disconnect_def ws_basic_defs Let_def split: option.splits)
  next
    case (Some timer)
    with ok have "filter (\<lambda>t. fst t \<noteq> timer) (armed_timers st) = []"
      by (auto simp: timers_ok_def filter_empty_conv)
    with Some show ?thesis
      by (simp add: ws_disconnect_def ws_basic_defs Let_def split: option.splits)
  qed
qed

lemma disconnect_timers_ok: "timers_ok st \<Longrightarrow> timers_ok (ws_disconnect st)"
  by (simp add: timers_ok_def disconnect_armed)

lemma timer_fires_timers_ok: "timers_ok st \<Longrightarrow> timers_ok (reconnect_timer_fires timer created st)"
proof -
  assume ok: "timers_ok st"
  show ?thesis
  proof (cases "timer \<in> fst ` set (armed_timers st)")
    case False
    with ok show ?thesis by (simp add: reconnect_timer_fires_def)
  next
    case True
    with ok have rt: "reconnectTimer st = Some timer"
      by (auto simp: timers_ok_def)
    with ok have "filter (\<lambda>t. fst t \<noteq> timer) (armed_timers st) = []"
      by (auto simp: timers_ok_def filter_empty_conv)
    with True show ?thesis
      by (simp add: reconnect_timer_fires_def ws_connect_def log_effect_def timers_ok_def Let_def)
  qed
qed

lemma ws_step_timers_ok:
  assumes ok: "timers_ok st"
  shows "timers_ok (ws_step i st)"
proof (cases i)
  case (SocketMessage sock msg now)
  with ok show ?thesis
    by (simp add: timers_ok_frame [OF onMessage_timers])
next
  case (SocketClose sock)
  with ok show ?thesis by (simp add: onClose_timers_ok)
next
  case CallDisconnect
  with ok show ?thesis by (simp add: disconnect_timers_ok)
next
  case (ReconnectTimerFires timer created)
  with ok show ?thesis by (simp add: timer_fires_timers_ok)
qed (insert ok, simp_all add: timers_ok_def ws_op_defs ws_basic_defs Let_def split: option.splits)

lemma ws_run_timers_ok: "timers_ok (ws_run inputs ws_init)"
proof (induction inputs rule: rev_induct)
  case Nil
  then show ?case by (simp add: ws_run_def ws_init_def timers_ok_def)
next
  case (snoc i inputs)
  then show ?case by (simp add: ws_run_snoc ws_step_timers_ok)
qed

lemma request_rejections_append:
  "request_rejections (xs @ ys) = request_rejections xs @ request_rejections ys"
  by (induction xs rule: request_rejections.induct) simp_all

lemma request_rejections_map:
  "request_rejections (map (\<lambda>rid. RequestRejected rid e) rids) = map (\<lambda>rid. (rid, e)) rids"
  by (induction rids) simp_all

lemmas ws_eval_defs =
  ws_run_def ws_init_def ws_op_defs ws_basic_defs replay_subscriptions_def set_add_def
  set_delete_def Let_def

lemma upt10: "[0..<10] = [0, 1, 2, 3, 4, 5, 6, 7, 8, 9]"
  by (simp add: upt_rec)

lemma ten_failed_state:
  "ws_run ten_failed_reconnects ws_init =
   \<lparr>ws = Some 10, connected = False, reconnecting = False,
    reconnectAttempts = 10, maxReconnectAttempts = 10,
    reconnectTimer = Some 9, armed_timers = [], heartbeatTimer = False,
    pendingRequests = [], requestIdCounter = 0, subscribedStreams = [],
    shouldReconnect = True, pingSeq = 0, pendingPing = None,
    resolved_sockets = [0, 1, 2, 3, 4, 5, 6, 7, 8, 9, 10], next_socket = 11,
    next_timer = 10,
    effects =
      [SocketCreated 0, SentOn 0 MsgConnect, Emitted EvConnected,
       ConnectResolved 0, Emitted EvDisconnected, ReconnectScheduled 0 1000]
      @ concat (map (\<lambda>(k, d).
          [SocketCreated k, Emitted EvDisconnected,
           ConnectRejected k (SlipstreamError CONNECTION ''WebSocket closed before connection''),
           ReconnectScheduled k d])
          [(1, 2000), (2, 4000), (3, 8000), (4, 16000), (5, 30000), (6, 30000), (7, 30000),
           (8, 30000), (9, 30000)])
      @ [SocketCreated 10, Emitted EvDisconnected,
         ConnectRejected 10 (SlipstreamError CONNECTION ''WebSocket closed before connection'')]\<rparr>"
  by (simp add: ten_failed_reconnects_def failed_attempt_def upt10 ws_eval_defs err_connection_def)

lemma decimal_digits:
  "string_of_nat 1 = ''1''" "string_of_nat (Suc 0) = ''1''" "string_of_nat 5 = ''5''"
  by (subst string_of_nat.simps, simp)+

text \<open>
  The delay of a scheduled reconnect is \<open>1000 * 2 ^ attempts\<close> capped at 30000, and the
  attempt counter grows by one; at the maximum the WebSocket transport does nothing at
  all, while the QUIC transport emits an error event.
\<close>

lemma ws_scheduleReconnect_delay:
  "\<not> reconnecting st \<Longrightarrow> reconnectAttempts st < maxReconnectAttempts st \<Longrightarrow>
   effects (ws_scheduleReconnect st) =
     effects st @ [ReconnectScheduled (next_timer st) (min (1000 * 2 ^ reconnectAttempts st) 30000)]
   \<and> reconnectAttempts (ws_scheduleReconnect st) = Suc (reconnectAttempts st)"
  by (simp add: ws_scheduleReconnect_def log_effect_def Let_def)

lemma ws_scheduleReconnect_exhausted:
  "reconnectAttempts st \<ge> maxReconnectAttempts st \<Longrightarrow> ws_scheduleReconnect st = st"
  by (simp add: ws_scheduleReconnect_def)

lemma quic_scheduleReconnect_exhausted:
  "q_reconnectAttempts st \<ge> q_maxReconnectAttempts st \<Longrightarrow>
   q_effects (quic_scheduleReconnect st) =
     q_effects st @ [QuicErrorEvent (err_connection ''QUIC max reconnect attempts reached'')]"
  by (simp add: quic_scheduleReconnect_def)

text \<open>
  C2. The claim is that after 10 consecutive failed reconnect attempts the transport stops
  retrying and emits exactly one terminal error event. On the WebSocket transport the
  delays are as claimed (1 s doubling up to the 30 s cap) and retrying stops after the
  tenth failed attempt (no timer is armed although reconnection is still wanted), but no
  error event is emitted at all: the run \<open>ten_failed_reconnects\<close> ends with an empty list
  of error events.
\<close>

theorem ws_reconnect_exhaustion_is_silent:
  "scheduled_delays (effects (ws_run ten_failed_reconnects ws_init))
     = [1000, 2000, 4000, 8000, 16000, 30000, 30000, 30000, 30000, 30000] \<and>
   reconnectAttempts (ws_run ten_failed_reconnects ws_init) = 10 \<and>
   shouldReconnect (ws_run ten_failed_reconnects ws_init) \<and>
   armed_timers (ws_run ten_failed_reconnects ws_init) = [] \<and>
   error_events (effects (ws_run ten_failed_reconnects ws_init)) = []"
  unfolding ten_failed_state by simp




lemma fold_desired_snoc:
  "fold desired_step (inputs @ [i]) D = desired_step i (fold desired_step inputs D)"
  by simp









text \<open>
  C7 as stated: the offset equals remote timestamp minus (client send time plus RTT/2).
  With a ping sent at time 0 and its pong, carrying the remote timestamp 10, received at
  time 3, the round trip is 3 and the transport reports the offset 9, which is not
  \<open>10 - (0 + 3/2)\<close>.
\<close>

theorem pong_offset_counterexample:
  "last (effects (ws_run (ping_pong 0 10 3) ws_init)) =
     PingResolved \<lparr>pr_seq = 0, rttMs = 3, clockOffsetMs = 9, pr_serverTime = 10\<rparr> \<and>
   real_of_int 9 \<noteq> spec_clock_offset 10 0 3"
proof -
  have a: "last (effects (ws_run (ping_pong 0 10 3) ws_init)) =
     PingResolved \<lparr>pr_seq = 0, rttMs = 3, clockOffsetMs = 9, pr_serverTime = 10\<rparr>"
    by (simp add: ping_pong_def ws_eval_defs)
  have b: "real_of_int 9 \<noteq> spec_clock_offset 10 0 3"
    by (simp add: spec_clock_offset_def)
  from a b show ?thesis by simp
qed

text \<open>
  C7 as amended: for every pong carrying a remote timestamp and handled while a ping is
  pending, the ping resolves with RTT equal to now minus the client send time and with
  clock offset equal to the remote timestamp minus (client send time plus RTT/2 rounded
  down to an integer); the offset may be negative (see the witness). The caller-invoked
  \<^verbatim>\<open>ping()\<close> records its send time as the pending ping and is resolved by this same
  handler, so it uses the same formula.
\<close>

theorem pong_rtt_and_offset:
  "(pendingPing st = Some clientSendTime \<longrightarrow>
      effects (handleMessage (SrvPong (Some remote) seq) now st) =
        effects st @
        [PingResolved
           \<lparr>pr_seq = (case seq of Some n \<Rightarrow> n | None \<Rightarrow> 0),
            rttMs = now - clientSendTime,
            clockOffsetMs = remote - (clientSendTime + (now - clientSendTime) div 2),
            pr_serverTime = remote\<rparr>]) \<and>
   (connected st \<longrightarrow> pendingPing (ping sent st) = Some sent)"
  by (simp add: handleMessage_def ping_def ws_basic_defs Let_def split: option.splits)

theorem pong_rtt_and_offset_witness:
  "connected (ws_init\<lparr>connected := True\<rparr>) \<and>
   pendingPing (ping 1000 (ws_init\<lparr>connected := True\<rparr>)) = Some 1000 \<and>
   effects (handleMessage (SrvPong (Some 900) None) 1041 (ping 1000 (ws_init\<lparr>connected := True\<rparr>)))
     = [PingResolved \<lparr>pr_seq = 0, rttMs = 41, clockOffsetMs = - 120, pr_serverTime = 900\<rparr>]"
proof -
  let ?st = "ws_init\<lparr>connected := True\<rparr>"
  have c: "connected ?st" by simp
  have p: "pendingPing (ping 1000 ?st) = Some 1000"
    using pong_rtt_and_offset [of ?st _ _ _ _ 1000] c by blast
  have e: "effects (ping 1000 ?st) = []"
    by (simp add: ping_def ws_init_def ws_basic_defs Let_def)
  from pong_rtt_and_offset [of "ping 1000 ?st" 1000 900 None 1041] p
  have "effects (handleMessage (SrvPong (Some 900) None) 1041 (ping 1000 ?st)) =
        effects (ping 1000 ?st) @
        [PingResolved \<lparr>pr_seq = 0, rttMs = 1041 - 1000,
           clockOffsetMs = 900 - (1000 + (1041 - 1000) div 2), pr_serverTime = 900\<rparr>]"
    by simp
  with c p e show ?thesis by simp
qed

text \<open>
  C8 as stated: \<^verbatim>\<open>disconnect()\<close> rejects every outstanding pending request before it
  returns. It does not: after a submission on a live connection, the state left by
  \<^verbatim>\<open>disconnect()\<close> still holds the request as pending and no request has been rejected.
\<close>

theorem disconnect_leaves_requests_pending_counterexample:
  "pendingRequests (ws_run submit_then_disconnect ws_init) = [''req_1_5''] \<and>
   request_rejections (effects (ws_run submit_then_disconnect ws_init)) = []"
  by (simp add: submit_then_disconnect_def ws_eval_defs string_of_int_def decimal_digits)

text \<open>
  C8 as amended: in every state the transport can reach, \<^verbatim>\<open>disconnect()\<close> leaves no
  reconnect timer armed and clears the handle, stops the heartbeat, turns reconnection
  off, marks the transport disconnected, and closes and drops the socket, all before it
  returns; it leaves the pending requests untouched. They are rejected, each with a
  CONNECTION error, when the close event of a socket is handled afterwards, and that
  handler schedules no reconnect.
\<close>

theorem disconnect_releases_and_defers_rejection:
  "armed_timers (ws_disconnect (ws_run inputs ws_init)) = [] \<and>
   reconnectTimer (ws_disconnect (ws_run inputs ws_init)) = None \<and>
   \<not> heartbeatTimer (ws_disconnect (ws_run inputs ws_init)) \<and>
   \<not> shouldReconnect (ws_disconnect (ws_run inputs ws_init)) \<and>
   \<not> connected (ws_disconnect (ws_run inputs ws_init)) \<and>
   ws (ws_disconnect (ws_run inputs ws_init)) = None \<and>
   (ws (ws_run inputs ws_init) = Some sock \<longrightarrow>
      last (effects (ws_disconnect (ws_run inputs ws_init))) = SocketCloseCalled sock) \<and>
   pendingRequests (ws_disconnect (ws_run inputs ws_init)) = pendingRequests (ws_run inputs ws_init) \<and>
   request_rejections (effects (ws_disconnect (ws_run inputs ws_init)))
     = request_rejections (effects (ws_run inputs ws_init)) \<and>
   pendingRequests (onClose sock' (ws_disconnect (ws_run inputs ws_init))) = [] \<and>
   request_rejections (effects (onClose sock' (ws_disconnect (ws_run inputs ws_init))))
     = request_rejections (effects (ws_run inputs ws_init))
       @ map (\<lambda>rid. (rid, SlipstreamError CONNECTION ''WebSocket closed''))
           (pendingRequests (ws_run inputs ws_init)) \<and>
   armed_timers (onClose sock' (ws_disconnect (ws_run inputs ws_init))) = []"
proof -
  let ?st = "ws_run inputs ws_init"
  have ok: "timers_ok ?st" by (rule ws_run_timers_ok)
  have armed: "armed_timers (ws_disconnect ?st) = []"
    using ok by (rule disconnect_armed)
  have fields: "reconnectTimer (ws_disconnect ?st) = None"
    "\<not> heartbeatTimer (ws_disconnect ?st)" "\<not> shouldReconnect (ws_disconnect ?st)"
    "\<not> connected (ws_disconnect ?st)" "ws (ws_disconnect ?st) = None"
    "pendingRequests (ws_disconnect ?st) = pendingRequests ?st"
    by (simp_all add: ws_disconnect_def ws_basic_defs Let_def split: option.splits)
  have closed: "ws ?st = Some sock \<longrightarrow> last (effects (ws_disconnect ?st)) = SocketCloseCalled sock"
    by (simp add: ws_disconnect_def ws_basic_defs Let_def split: option.splits)
  have rej: "request_rejections (effects (ws_disconnect ?st)) = request_rejections (effects ?st)"
    by (simp add: ws_disconnect_def ws_basic_defs Let_def request_rejections_append
        split: option.splits)
  have close_pending: "pendingRequests (onClose sock' (ws_disconnect ?st)) = []"
    using fields by (simp add: onClose_def ws_basic_defs Let_def)
  have close_armed: "armed_timers (onClose sock' (ws_disconnect ?st)) = []"
    using fields armed by (simp add: onClose_def ws_basic_defs Let_def)
  have close_rej: "request_rejections (effects (onClose sock' (ws_disconnect ?st)))
     = request_rejections (effects (ws_disconnect ?st))
       @ map (\<lambda>rid. (rid, SlipstreamError CONNECTION ''WebSocket closed''))
           (pendingRequests (ws_disconnect ?st))"
    using fields
    by (simp add: onClose_def ws_basic_defs Let_def request_rejections_append
        request_rejections_map err_connection_def)
  show ?thesis
    using armed fields closed close_pending close_armed close_rej
    unfolding rej fields(6) by (intro conjI) simp_all
qed

theorem disconnect_releases_and_defers_rejection_witness:
  "ws (ws_run submit_on_live_connection ws_init) = Some 0 \<and>
   last (effects (ws_disconnect (ws_run submit_on_live_connection ws_init))) = SocketCloseCalled 0 \<and>
   request_rejections (effects (onClose 0 (ws_disconnect (ws_run submit_on_live_connection ws_init))))
     = [(''req_1_5'', SlipstreamError CONNECTION ''WebSocket closed'')]"
proof -
  let ?st = "ws_run submit_on_live_connection ws_init"
  have h: "ws ?st = Some 0"
    by (simp add: submit_on_live_connection_def ws_eval_defs)
  have p: "pendingRequests ?st = [''req_1_5'']"
    by (simp add: submit_on_live_connection_def ws_eval_defs string_of_int_def decimal_digits)
  have r: "request_rejections (effects ?st) = []"
    by (simp add: submit_on_live_connection_def ws_eval_defs)
  note t = disconnect_releases_and_defers_rejection [of submit_on_live_connection 0 0]
  from t h have a: "last (effects (ws_disconnect ?st)) = SocketCloseCalled 0"
    by blast
  from t have b: "request_rejections (effects (onClose 0 (ws_disconnect ?st)))
     = request_rejections (effects ?st)
       @ map (\<lambda>rid. (rid, SlipstreamError CONNECTION ''WebSocket closed'')) (pendingRequests ?st)"
    by blast
  from h a b show ?thesis
    unfolding p r by simp
qed

end
